theory Spec2Isabelle
  imports Main "HOL-Library.Sublist" "HOL-Library.AList"
begin

section \<open>Strings and paths\<close>

text \<open>
  The two source files are \<^verbatim>\<open>src/extension.ts\<close> (the session registry and the
  fragment registry) and \<^verbatim>\<open>src/preview-panel-scope.ts\<close> (the preview session and
  the render pipeline). JavaScript strings are modelled as \<^typ>\<open>string\<close>, one
  \<^typ>\<open>char\<close> per code unit below 256.
\<close>

type_synonym path = string

text \<open>\<^verbatim>\<open>String.prototype.trimLeft\<close>: the white space of ECMAScript below 256.\<close>

definition isWhiteSpace :: "char \<Rightarrow> bool" where
  "isWhiteSpace c =
     (c \<in> set [CHR 0x09, CHR 0x0A, CHR 0x0B, CHR 0x0C, CHR 0x0D, CHR 0x20, CHR 0xA0])"

definition trimLeft :: "string \<Rightarrow> string" where
  "trimLeft s = dropWhile isWhiteSpace s"

text \<open>
  \<^verbatim>\<open>String.prototype.toLowerCase\<close> on the letters A to Z. The source only compares
  its result with the ASCII literals \<^verbatim>\<open>data:\<close> and \<^verbatim>\<open>http\<close>, and no character
  outside A to Z lowers to one of their letters.
\<close>

definition toLowerCase_char :: "char \<Rightarrow> char" where
  "toLowerCase_char c =
     (case map_of (zip ''ABCDEFGHIJKLMNOPQRSTUVWXYZ'' ''abcdefghijklmnopqrstuvwxyz'') c of
        None \<Rightarrow> c
      | Some l \<Rightarrow> l)"

definition toLowerCase :: "string \<Rightarrow> string" where
  "toLowerCase s = map toLowerCase_char s"

definition startsWith :: "string \<Rightarrow> string \<Rightarrow> bool" where
  "startsWith s p = (take (length p) s = p)"

text \<open>
  Node's \<^verbatim>\<open>path\<close> module, POSIX flavour, after the algorithm of its
  \<^verbatim>\<open>normalizeString\<close>, \<^verbatim>\<open>normalize\<close>, \<^verbatim>\<open>join\<close>, \<^verbatim>\<open>dirname\<close> and
  \<^verbatim>\<open>basename\<close>: the character loops are written over the segments between slashes.
\<close>

fun segments :: "string \<Rightarrow> string \<Rightarrow> string list" where
  "segments cur [] = [rev cur]"
| "segments cur (c # cs) =
     (if c = CHR ''/'' then rev cur # segments [] cs else segments (c # cur) cs)"

fun joinWith :: "string \<Rightarrow> string list \<Rightarrow> string" where
  "joinWith sep [] = []"
| "joinWith sep [x] = x"
| "joinWith sep (x # y # ys) = x @ sep @ joinWith sep (y # ys)"

definition normalize_step :: "bool \<Rightarrow> string list \<Rightarrow> string \<Rightarrow> string list" where
  "normalize_step allowAboveRoot res seg =
     (if seg = [] \<or> seg = ''.'' then res
      else if seg = ''..'' then
        (if res \<noteq> [] \<and> last res \<noteq> ''..'' then butlast res
         else if allowAboveRoot then res @ [''..'']
         else res)
      else res @ [seg])"

definition normalizeString :: "string \<Rightarrow> bool \<Rightarrow> string" where
  "normalizeString p allowAboveRoot =
     joinWith ''/'' (foldl (normalize_step allowAboveRoot) [] (segments [] p))"

definition path_normalize :: "path \<Rightarrow> path" where
  "path_normalize p =
     (if p = [] then ''.''
      else
        let isAbsolute = (hd p = CHR ''/'');
            trailingSeparator = (last p = CHR ''/'');
            q = normalizeString p (\<not> isAbsolute)
        in if q = [] then
             (if isAbsolute then ''/'' else if trailingSeparator then ''./'' else ''.'')
           else (if isAbsolute then ''/'' else []) @ q @ (if trailingSeparator then ''/'' else []))"

definition path_join :: "path list \<Rightarrow> path" where
  "path_join args =
     (let joined = joinWith ''/'' (filter (\<lambda>a. a \<noteq> []) args)
      in if joined = [] then ''.'' else path_normalize joined)"

definition path_dirname :: "path \<Rightarrow> path" where
  "path_dirname p =
     (if p = [] then ''.''
      else
        let hasRoot = (hd p = CHR ''/'');
            rest = dropWhile (\<lambda>c. c \<noteq> CHR ''/'')
                     (dropWhile (\<lambda>c. c = CHR ''/'') (rev (tl p)));
            end = length rest
        in if rest = [] then (if hasRoot then ''/'' else ''.'')
           else if hasRoot \<and> end = 1 then ''//''
           else take end p)"

definition path_basename :: "path \<Rightarrow> path" where
  "path_basename p =
     rev (takeWhile (\<lambda>c. c \<noteq> CHR ''/'') (dropWhile (\<lambda>c. c = CHR ''/'') (rev p)))"

section \<open>Values, errors and the outside of the two files\<close>

text \<open>What a \<^verbatim>\<open>throw\<close> or a rejected promise carries.\<close>

datatype exn = TypeError | SyntaxError | SystemError | HandlebarsException string

text \<open>A JSON value, the result of \<^verbatim>\<open>JSON.parse\<close>.\<close>

datatype json =
    JNull
  | JBoolean bool
  | JNumber int
  | JString string
  | JArray "json list"
  | JObject "(string \<times> json) list"

text \<open>
  The document tree cheerio builds: an element has a tag name, its \<^verbatim>\<open>attribs\<close>
  object (keys in insertion order) and children.
\<close>

datatype node =
    Text string
  | Element string "(string \<times> string) list" "node list"

text \<open>
  A \<^verbatim>\<open>TextDocument\<close> of the host. \<open>doc_id\<close> stands for the identity of the object
  (\<^verbatim>\<open>===\<close>); its text is read from the host at the time of each call.
\<close>

record TextDocument =
  doc_id :: nat
  fileName :: path
  uri_fsPath :: path

text \<open>
  Everything the two files call and do not define: Handlebars (\<^verbatim>\<open>compile\<close> and the
  call of the compiled template, which reads the registered partials), \<^verbatim>\<open>JSON\<close>,
  cheerio (\<^verbatim>\<open>load\<close> and \<^verbatim>\<open>$.html\<close>), the host's
  \<^verbatim>\<open>uri.with({scheme: 'vscode-resource', path}).toString()\<close>, and one part of the
  repository that is not among the source files: \<^verbatim>\<open>partialNameGenerator\<close>.
  \<^verbatim>\<open>JSON.stringify\<close> of a thrown value is taken not to throw.
\<close>

record 't env =
  hb_compile :: "string \<Rightarrow> exn + 't"
  hb_template :: "(string \<rightharpoonup> string) \<Rightarrow> 't \<Rightarrow> json \<Rightarrow> exn + string"
  JSON_parse :: "string \<Rightarrow> exn + json"
  JSON_stringify :: "exn \<Rightarrow> string"
  loadDocument :: "string \<Rightarrow> node list"
  dom_html :: "node list \<Rightarrow> string"
  uri_with_path :: "TextDocument \<Rightarrow> path \<Rightarrow> string"
  partialNameGenerator :: "path \<Rightarrow> path \<Rightarrow> string"

text \<open>
  The host and the file system as one handler sees them: files, the text of each open
  document (\<^verbatim>\<open>getText\<close> does not throw), the active editor's document, the workspace
  folders. A handler runs to its end in one such world.
\<close>

record world =
  readFile :: "path \<Rightarrow> exn + string"
  existsSync :: "path \<Rightarrow> bool"
  getText :: "nat \<Rightarrow> string"
  activeTextEditor :: "TextDocument option"
  getWorkspaceFolder :: "path \<Rightarrow> path option"
  workspaceFolders :: "path list option"
  findFiles :: "path \<Rightarrow> exn + path list"

section \<open>Resource-path rewriting\<close>

text \<open>\<^verbatim>\<open>$('img')\<close>: the attributes of every \<^verbatim>\<open>img\<close> element, in document order.\<close>

fun select_img :: "node \<Rightarrow> (string \<times> string) list list" where
  "select_img (Text s) = []"
| "select_img (Element tag attribs children) =
     (if tag = ''img'' then [attribs] else []) @ concat (map select_img children)"

text \<open>The mutation \<^verbatim>\<open>.each\<close> performs, at every \<^verbatim>\<open>img\<close> element of the tree.\<close>

fun each_img :: "((string \<times> string) list \<Rightarrow> (string \<times> string) list) \<Rightarrow> node \<Rightarrow> node" where
  "each_img f (Text s) = Text s"
| "each_img f (Element tag attribs children) =
     Element tag (if tag = ''img'' then f attribs else attribs) (map (each_img f) children)"

text \<open>
  The predicate of \<^verbatim>\<open>.filter\<close>. \<^verbatim>\<open>elm.attribs['src']\<close> is \<^verbatim>\<open>undefined\<close> when the
  element has no such attribute, and \<^verbatim>\<open>undefined.trimLeft()\<close> throws a TypeError.
\<close>

definition filter_img :: "(string \<times> string) list \<Rightarrow> exn + bool" where
  "filter_img attribs =
     (case map_of attribs ''src'' of
        None \<Rightarrow> Inl TypeError
      | Some src \<Rightarrow>
          Inr (toLowerCase (take 5 (trimLeft src)) \<noteq> ''data:''
               \<and> \<not> startsWith (toLowerCase src) ''http''))"

definition newSrc :: "'t env \<Rightarrow> TextDocument \<Rightarrow> string \<Rightarrow> string" where
  "newSrc E templateDocument src =
     uri_with_path E templateDocument (path_join [path_dirname (fileName templateDocument), src])"

definition repath_img :: "'t env \<Rightarrow> TextDocument \<Rightarrow> (string \<times> string) list \<Rightarrow> (string \<times> string) list" where
  "repath_img E templateDocument attribs =
     (case filter_img attribs of
        Inr True \<Rightarrow>
          (case map_of attribs ''src'' of
             Some src \<Rightarrow> AList.update ''src'' (newSrc E templateDocument src) attribs
           | None \<Rightarrow> attribs)
      | _ \<Rightarrow> attribs)"

text \<open>
  \<^verbatim>\<open>repathImages\<close>: the filter runs over the whole selection first, and throws at
  an element without \<^verbatim>\<open>src\<close>; then every element it kept gets its new \<^verbatim>\<open>src\<close>.
\<close>

definition repathImages :: "'t env \<Rightarrow> string \<Rightarrow> TextDocument \<Rightarrow> exn + string" where
  "repathImages E html templateDocument =
     (let tree = loadDocument E html in
      if list_ex (\<lambda>attribs. filter_img attribs = Inl TypeError) (concat (map select_img tree))
      then Inl TypeError
      else Inr (dom_html E (map (each_img (repath_img E templateDocument)) tree)))"

section \<open>The state of the extension\<close>

text \<open>
  A \<^verbatim>\<open>PreviewPanelScope\<close> object. The fields of its \<^verbatim>\<open>WebviewPanel\<close> are
  \<open>panel_title\<close>, \<open>panel_localResourceRoots\<close>, \<open>panel_html\<close> (the content
  \<^verbatim>\<open>panel.webview.html\<close>) and \<open>panel_disposed\<close>; of its context watcher the model
  keeps whether it has been disposed. \<open>onPreviewPanelClosed\<close> is the constructor's second
  argument, which the listener of the panel keeps: a function on the list of sessions, or
  \<^verbatim>\<open>undefined\<close> (here \<open>None\<close>) when the caller passed none.
\<close>

record PreviewPanelScope =
  document :: TextDocument
  contextFileName :: path
  panel_title :: string
  panel_localResourceRoots :: "path list"
  panel_html :: string
  panel_disposed :: bool
  contextWatcher_disposed :: bool
  onPreviewPanelClosed :: "(nat \<Rightarrow> nat list \<Rightarrow> nat list) option"

text \<open>
  The state of the extension: the session objects by reference (references below
  \<open>next_ref\<close> are allocated), the module variables \<^verbatim>\<open>panels\<close> and
  \<^verbatim>\<open>partialsRegisteredByWorkspace\<close> (its own keys), Handlebars' table of partials,
  and the information messages shown. \<open>scans\<close> is a history variable: every run of
  \<^verbatim>\<open>findAndRegisterPartials\<close> adds the workspace root it scanned and whether it
  completed.
\<close>

record state =
  heap :: "nat \<Rightarrow> PreviewPanelScope"
  next_ref :: nat
  panels :: "nat list"
  partialsRegisteredByWorkspace :: "path set"
  partials :: "string \<rightharpoonup> string"
  informationMessages :: "string list"
  scans :: "(path \<times> bool) list"

definition modify :: "nat \<Rightarrow> (PreviewPanelScope \<Rightarrow> PreviewPanelScope) \<Rightarrow> state \<Rightarrow> state" where
  "modify r f st = st\<lparr>heap := (heap st)(r := f (heap st r))\<rparr>"

section \<open>The render pipeline\<close>

text \<open>A \<^verbatim>\<open>try\<close> block with its \<^verbatim>\<open>catch\<close>, over computations that may throw.\<close>

definition try_catch ::
  "('s \<Rightarrow> (exn + 'a) \<times> 's) \<Rightarrow> (exn \<Rightarrow> 's \<Rightarrow> (exn + 'a) \<times> 's) \<Rightarrow> 's \<Rightarrow> (exn + 'a) \<times> 's" where
  "try_catch body handler st =
     (case body st of
        (Inl err, st') \<Rightarrow> handler err st'
      | (Inr v, st') \<Rightarrow> (Inr v, st'))"

definition errorPage :: "string \<Rightarrow> string" where
  "errorPage message =
     [CHR 0x0A] @ ''        <html style=\"height: 100%;\">'' @
     [CHR 0x0A] @ ''        <body style=\"height: 100%; display: flex; align-items: center; align-content: center; justify-content: center;\"><span>''
       @ message @ ''</span></body>'' @
     [CHR 0x0A] @ ''        </html>'' @
     [CHR 0x0A] @ ''        ''"

definition showErrorPage :: "nat \<Rightarrow> string \<Rightarrow> state \<Rightarrow> state" where
  "showErrorPage this message st = modify this (\<lambda>s. s\<lparr>panel_html := errorPage message\<rparr>) st"

text \<open>
  Modelled from the spec: the subscriber of \<^verbatim>\<open>showErrorMessage\<close>, which
  \<^verbatim>\<open>preview-panel-scope.ts\<close> imports from \<^verbatim>\<open>./extension\<close> and which is not in the
  source files. The spec: on a compile or render failure "the session displays a minimal
  error page (centered message text) in place of template output". A message naming a
  panel shows the error page on that panel; \<^verbatim>\<open>null\<close> shows nothing.
\<close>

definition showErrorMessage_next :: "(nat \<times> string) option \<Rightarrow> state \<Rightarrow> state" where
  "showErrorMessage_next m st =
     (case m of None \<Rightarrow> st | Some (panel, message) \<Rightarrow> showErrorPage panel message st)"

definition errorMessage :: "'t env \<Rightarrow> exn \<Rightarrow> string" where
  "errorMessage E err = ''Error rendering handlebars template: '' @ JSON_stringify E err"

text \<open>\<^verbatim>\<open>renderTemplate\<close> returns the HTML, or \<^verbatim>\<open>false\<close> (here \<open>None\<close>).\<close>

definition renderTemplate ::
  "'t env \<Rightarrow> 't \<Rightarrow> json \<Rightarrow> nat \<Rightarrow> state \<Rightarrow> (exn + string option) \<times> state" where
  "renderTemplate E template templateContext panel =
     try_catch
       (\<lambda>st. case hb_template E (partials st) template templateContext of
                Inl err \<Rightarrow> (Inl err, st)
              | Inr html \<Rightarrow> (Inr (Some html), showErrorMessage_next None st))
       (\<lambda>err st.
          (Inr None, showErrorMessage_next (Some (panel, errorMessage E err)) st))"

definition getContextData :: "'t env \<Rightarrow> world \<Rightarrow> path \<Rightarrow> exn + json" where
  "getContextData E w contextFile =
     (case (case readFile w contextFile of
              Inl err \<Rightarrow> Inl err
            | Inr contextJson \<Rightarrow> JSON_parse E contextJson) of
        Inl err \<Rightarrow> Inr (JObject [])
      | Inr v \<Rightarrow> Inr v)"

definition getCompiledHtml ::
  "'t env \<Rightarrow> world \<Rightarrow> TextDocument \<Rightarrow> path \<Rightarrow> nat \<Rightarrow> state \<Rightarrow> (exn + string option) \<times> state" where
  "getCompiledHtml E w templateDocument contextFile panel st =
     (case getContextData E w contextFile of
        Inl err \<Rightarrow> (Inl err, st)
      | Inr context \<Rightarrow>
          let template = getText w (doc_id templateDocument) in
          try_catch
            (\<lambda>st. case hb_compile E template of
                     Inl err \<Rightarrow> (Inl err, st)
                   | Inr compiledTemplate \<Rightarrow>
                       (case renderTemplate E compiledTemplate context panel st of
                          (Inl err, st') \<Rightarrow> (Inl err, st')
                        | (Inr None, st') \<Rightarrow> (Inr None, st')
                        | (Inr (Some rendered), st') \<Rightarrow>
                            (case repathImages E rendered templateDocument of
                               Inl err \<Rightarrow> (Inl err, st')
                             | Inr repathedHtml \<Rightarrow> (Inr (Some repathedHtml), st'))))
            (\<lambda>err st.
               (Inr None, showErrorMessage_next (Some (panel, errorMessage E err)) st))
            st)"

section \<open>The preview session\<close>

text \<open>
  What the constructor receives as \<^verbatim>\<open>document\<close>. The declaration says
  \<^verbatim>\<open>TextDocument\<close>, but at run time the types are gone, and \<^verbatim>\<open>extension.ts\<close> passes
  the \<^verbatim>\<open>TextEditor\<close>, an object with no \<^verbatim>\<open>fileName\<close>: reading it gives
  \<^verbatim>\<open>undefined\<close> (here \<open>None\<close>).
\<close>

datatype host_object = A_TextDocument TextDocument | A_TextEditor TextDocument

definition object_fileName :: "host_object \<Rightarrow> path option" where
  "object_fileName v = (case v of A_TextDocument d \<Rightarrow> Some (fileName d) | A_TextEditor d \<Rightarrow> None)"

text \<open>A value inside a template literal: \<^verbatim>\<open>undefined\<close> reads \<^verbatim>\<open>undefined\<close>.\<close>

definition template_string :: "string option \<Rightarrow> string" where
  "template_string v = (case v of None \<Rightarrow> ''undefined'' | Some s \<Rightarrow> s)"

text \<open>Node's \<^verbatim>\<open>path.basename\<close> checks its argument: anything but a string is a TypeError.\<close>

definition path_basename_of :: "path option \<Rightarrow> exn + path" where
  "path_basename_of v = (case v of None \<Rightarrow> Inl TypeError | Some p \<Rightarrow> Inr (path_basename p))"

definition getContextFileName :: "world \<Rightarrow> path option \<Rightarrow> state \<Rightarrow> path \<times> state" where
  "getContextFileName w templateFileName st =
     (let contextFileName = template_string templateFileName @ ''.json'' in
      (contextFileName,
       if \<not> existsSync w contextFileName
       then st\<lparr>informationMessages := informationMessages st @
              [''Tip: create a file named '' @ path_basename contextFileName
                 @ '' with your test data'']\<rparr>
       else st))"

text \<open>
  The constructor. The title of the panel is computed first:
  \<^verbatim>\<open>path.basename(document.fileName)\<close> throws when \<^verbatim>\<open>fileName\<close> is \<^verbatim>\<open>undefined\<close>, so
  for a \<^verbatim>\<open>TextEditor\<close> the constructor throws before any panel is created.
  \<^verbatim>\<open>workspace.workspaceFolders!\<close> is \<^verbatim>\<open>undefined\<close> when no folder is open, and
  \<^verbatim>\<open>.map\<close> on it throws as well. Past the title the object has a \<^verbatim>\<open>fileName\<close>, so
  the last case is reached with a document only.
\<close>

definition new_PreviewPanelScope ::
  "world \<Rightarrow> host_object \<Rightarrow> (nat \<Rightarrow> nat list \<Rightarrow> nat list) option \<Rightarrow> state
     \<Rightarrow> (exn + nat) \<times> state" where
  "new_PreviewPanelScope w v callback st =
     (case getContextFileName w (object_fileName v) st of
        (contextFile, st1) \<Rightarrow>
          (case path_basename_of (object_fileName v) of
             Inl err \<Rightarrow> (Inl err, st1)
           | Inr base \<Rightarrow>
               (case workspaceFolders w of
                  None \<Rightarrow> (Inl TypeError, st1)
                | Some folders \<Rightarrow>
                    (case v of
                       A_TextEditor editor \<Rightarrow> (Inl TypeError, st1)
                     | A_TextDocument doc \<Rightarrow>
                         let this = next_ref st1;
                             scope = \<lparr>document = doc,
                                      contextFileName = contextFile,
                                      panel_title = ''Preview: '' @ base,
                                      panel_localResourceRoots = folders @ [path_dirname (fileName doc)],
                                      panel_html = [],
                                      panel_disposed = False,
                                      contextWatcher_disposed = False,
                                      onPreviewPanelClosed = callback\<rparr>
                         in (Inr this,
                             st1\<lparr>heap := (heap st1)(this := scope), next_ref := Suc this\<rparr>)))))"

text \<open>
  The listener the constructor registers with \<^verbatim>\<open>panel.onDidDispose\<close>: it disposes the
  watcher, then calls \<^verbatim>\<open>onPreviewPanelClosed(this)\<close>, and calling \<^verbatim>\<open>undefined\<close> is a
  TypeError.
\<close>

definition panel_onDidDispose :: "nat \<Rightarrow> state \<Rightarrow> (exn + unit) \<times> state" where
  "panel_onDidDispose this st =
     (let st1 = modify this (\<lambda>s. s\<lparr>contextWatcher_disposed := True\<rparr>) st
      in case onPreviewPanelClosed (heap st1 this) of
           None \<Rightarrow> (Inl TypeError, st1)
         | Some callback \<Rightarrow> (Inr (), st1\<lparr>panels := callback this (panels st1)\<rparr>))"

text \<open>
  The host's panel: closing it, by the user or by \<^verbatim>\<open>dispose()\<close>, marks it disposed and
  runs the listener, once. The host's event emitter catches what a listener throws, so the
  exception does not reach the caller of \<^verbatim>\<open>dispose()\<close>.
\<close>

definition panel_dispose :: "nat \<Rightarrow> state \<Rightarrow> state" where
  "panel_dispose this st =
     (if panel_disposed (heap st this) then st
      else snd (panel_onDidDispose this (modify this (\<lambda>s. s\<lparr>panel_disposed := True\<rparr>) st)))"

definition disposePreviewPanel :: "nat \<Rightarrow> state \<Rightarrow> state" where
  "disposePreviewPanel this st = panel_dispose this st"

definition editorFilePath :: "state \<Rightarrow> nat \<Rightarrow> path" where
  "editorFilePath st this = uri_fsPath (document (heap st this))"

text \<open>\<^verbatim>\<open>if (html)\<close>: \<^verbatim>\<open>false\<close> and the empty string are falsy.\<close>

definition set_html_if_truthy :: "nat \<Rightarrow> string option \<Rightarrow> state \<Rightarrow> state" where
  "set_html_if_truthy this html st =
     (case html of
        None \<Rightarrow> st
      | Some h \<Rightarrow> if h = [] then st else modify this (\<lambda>s. s\<lparr>panel_html := h\<rparr>) st)"

definition update :: "'t env \<Rightarrow> world \<Rightarrow> nat \<Rightarrow> state \<Rightarrow> (exn + unit) \<times> state" where
  "update E w this st =
     (case getCompiledHtml E w (document (heap st this)) (contextFileName (heap st this)) this st of
        (Inl err, st') \<Rightarrow> (Inl err, st')
      | (Inr html, st') \<Rightarrow> (Inr (), set_html_if_truthy this html st'))"

text \<open>The listener of the context watcher's \<^verbatim>\<open>onDidChange\<close>.\<close>

definition contextWatcher_onDidChange ::
  "'t env \<Rightarrow> world \<Rightarrow> nat \<Rightarrow> state \<Rightarrow> (exn + unit) \<times> state" where
  "contextWatcher_onDidChange E w this st =
     (case getCompiledHtml E w (document (heap st this)) (contextFileName (heap st this)) this st of
        (Inl err, st') \<Rightarrow> (Inl err, st')
      | (Inr html, st') \<Rightarrow> (Inr (), set_html_if_truthy this html st'))"

definition workspaceDocumentChanged ::
  "'t env \<Rightarrow> world \<Rightarrow> nat \<Rightarrow> TextDocument \<Rightarrow> state \<Rightarrow> (exn + unit) \<times> state" where
  "workspaceDocumentChanged E w this event_document st =
     (if doc_id event_document = doc_id (document (heap st this))
         \<or> fileName event_document = contextFileName (heap st this)
      then update E w this st
      else (Inr (), st))"

section \<open>The registries\<close>

text \<open>
  \<^verbatim>\<open>workspaceRoot in partialsRegisteredByWorkspace\<close>: the operator \<^verbatim>\<open>in\<close> also
  finds the properties an object literal inherits from \<^verbatim>\<open>Object.prototype\<close>.
\<close>

definition Object_prototype_keys :: "string list" where
  "Object_prototype_keys =
     [''constructor'', ''__defineGetter__'', ''__defineSetter__'', ''hasOwnProperty'',
      ''__lookupGetter__'', ''__lookupSetter__'', ''isPrototypeOf'', ''propertyIsEnumerable'',
      ''toString'', ''valueOf'', ''__proto__'', ''toLocaleString'']"

definition partialsRegistered :: "path \<Rightarrow> state \<Rightarrow> bool" where
  "partialsRegistered workspaceRoot st =
     (workspaceRoot \<in> partialsRegisteredByWorkspace st \<or> workspaceRoot \<in> set Object_prototype_keys)"

text \<open>
  Handlebars' \<^verbatim>\<open>registerPartial\<close>: with a name and a content it assigns
  \<^verbatim>\<open>partials[name]\<close>; with an object it copies every entry into \<^verbatim>\<open>partials\<close>.
\<close>

definition registerPartial :: "string \<Rightarrow> string \<Rightarrow> state \<Rightarrow> state" where
  "registerPartial name content st = st\<lparr>partials := (partials st)(name \<mapsto> content)\<rparr>"

definition registerPartials :: "(string \<rightharpoonup> string) \<Rightarrow> state \<Rightarrow> state" where
  "registerPartials known st = st\<lparr>partials := partials st ++ known\<rparr>"

text \<open>The loop of \<^verbatim>\<open>findAndRegisterPartials\<close> that fills \<^verbatim>\<open>knownPartials\<close>.\<close>

fun readPartials ::
  "'t env \<Rightarrow> world \<Rightarrow> path list \<Rightarrow> (string \<rightharpoonup> string) \<Rightarrow> exn + (string \<rightharpoonup> string)" where
  "readPartials E w [] knownPartials = Inr knownPartials"
| "readPartials E w (hbs # rest) knownPartials =
     (case getWorkspaceFolder w hbs of
        None \<Rightarrow> readPartials E w rest knownPartials
      | Some workspaceFolder \<Rightarrow>
          (case readFile w hbs of
             Inl err \<Rightarrow> Inl err
           | Inr content \<Rightarrow>
               readPartials E w rest
                 (knownPartials(partialNameGenerator E hbs workspaceFolder \<mapsto> content))))"

definition findAndRegisterPartials ::
  "'t env \<Rightarrow> world \<Rightarrow> path \<Rightarrow> state \<Rightarrow> (exn + unit) \<times> state" where
  "findAndRegisterPartials E w workspaceFolder st =
     (case (case findFiles w workspaceFolder of
              Inl err \<Rightarrow> Inl err
            | Inr hbsFiles \<Rightarrow> readPartials E w hbsFiles Map.empty) of
        Inl err \<Rightarrow> (Inl err, st\<lparr>scans := scans st @ [(workspaceFolder, False)]\<rparr>)
      | Inr knownPartials \<Rightarrow>
          (Inr (),
           (registerPartials knownPartials st)
             \<lparr>partialsRegisteredByWorkspace :=
                insert workspaceFolder (partialsRegisteredByWorkspace st),
              scans := scans st @ [(workspaceFolder, True)]\<rparr>))"

text \<open>
  \<^verbatim>\<open>Array.prototype.indexOf\<close> (\<open>-1\<close> when absent) and \<^verbatim>\<open>splice(start, 1)\<close>, where
  a negative start counts from the end.
\<close>

definition indexOf :: "'a list \<Rightarrow> 'a \<Rightarrow> int" where
  "indexOf xs x =
     (if x \<in> set xs then int (length (takeWhile (\<lambda>y. y \<noteq> x) xs)) else - 1)"

definition splice1 :: "int \<Rightarrow> 'a list \<Rightarrow> 'a list" where
  "splice1 start xs =
     (let len = int (length xs);
          actualStart = nat (if start < 0 then max (len + start) 0 else min start len)
      in take actualStart xs @ drop (Suc actualStart) xs)"

text \<open>The \<^verbatim>\<open>for ... of panels\<close> loops, which stop at the first rejection.\<close>

fun update_each :: "'t env \<Rightarrow> world \<Rightarrow> nat list \<Rightarrow> state \<Rightarrow> (exn + unit) \<times> state" where
  "update_each E w [] st = (Inr (), st)"
| "update_each E w (panel # rest) st =
     (case update E w panel st of
        (Inl err, st') \<Rightarrow> (Inl err, st')
      | (Inr u, st') \<Rightarrow> update_each E w rest st')"

fun workspaceDocumentChanged_each ::
  "'t env \<Rightarrow> world \<Rightarrow> nat list \<Rightarrow> TextDocument \<Rightarrow> state \<Rightarrow> (exn + unit) \<times> state" where
  "workspaceDocumentChanged_each E w [] e st = (Inr (), st)"
| "workspaceDocumentChanged_each E w (panel # rest) e st =
     (case workspaceDocumentChanged E w panel e st of
        (Inl err, st') \<Rightarrow> (Inl err, st')
      | (Inr u, st') \<Rightarrow> workspaceDocumentChanged_each E w rest e st')"

text \<open>The listener of \<^verbatim>\<open>workspace.onDidChangeTextDocument\<close>.\<close>

definition onDidChangeTextDocument ::
  "'t env \<Rightarrow> world \<Rightarrow> TextDocument \<Rightarrow> state \<Rightarrow> (exn + unit) \<times> state" where
  "onDidChangeTextDocument E w e st = workspaceDocumentChanged_each E w (panels st) e st"

text \<open>
  The \<^verbatim>\<open>try\<close> block of the command: \<^verbatim>\<open>new PreviewPanelScope(editor)\<close>, with the
  editor as the only argument, then the update, then the push. Its \<^verbatim>\<open>catch\<close> is empty.
  \<open>doc\<close> is the document of the active editor.
\<close>

definition createPanel :: "'t env \<Rightarrow> world \<Rightarrow> TextDocument \<Rightarrow> state \<Rightarrow> (exn + unit) \<times> state" where
  "createPanel E w doc =
     try_catch
       (\<lambda>st. case new_PreviewPanelScope w (A_TextEditor doc) None st of
                (Inl err, st1) \<Rightarrow> (Inl err, st1)
              | (Inr panel, st1) \<Rightarrow>
                  (case update E w panel st1 of
                     (Inl err, st2) \<Rightarrow> (Inl err, st2)
                   | (Inr u, st2) \<Rightarrow> (Inr (), st2\<lparr>panels := panels st2 @ [panel]\<rparr>)))
       (\<lambda>err st. (Inr (), st))"

text \<open>The first half of the command: an existing session of the document is disposed
  and spliced out of \<^verbatim>\<open>panels\<close>.\<close>

definition closeExisting :: "TextDocument \<Rightarrow> state \<Rightarrow> state" where
  "closeExisting doc st =
     (case find (\<lambda>x. editorFilePath st x = uri_fsPath doc) (panels st) of
        None \<Rightarrow> st
      | Some existingPanel \<Rightarrow>
          let st1 = disposePreviewPanel existingPanel st
          in st1\<lparr>panels := splice1 (indexOf (panels st1) existingPanel) (panels st1)\<rparr>)"

text \<open>The command \<^verbatim>\<open>extension.previewHandlebars\<close>.\<close>

definition previewHandlebars :: "'t env \<Rightarrow> world \<Rightarrow> state \<Rightarrow> (exn + unit) \<times> state" where
  "previewHandlebars E w st =
     (case activeTextEditor w of
        None \<Rightarrow> (Inr (), st)
      | Some doc \<Rightarrow>
          let st1 = closeExisting doc st in
          (case getWorkspaceFolder w (uri_fsPath doc) of
             None \<Rightarrow> (Inr (), st1)
           | Some workspaceRoot \<Rightarrow>
               (case (if \<not> partialsRegistered workspaceRoot st1
                      then findAndRegisterPartials E w workspaceRoot st1
                      else (Inr (), st1)) of
                  (Inl err, st2) \<Rightarrow> (Inl err, st2)
                | (Inr u, st2) \<Rightarrow> createPanel E w doc st2)))"

text \<open>The two listeners of \<^verbatim>\<open>watchForPartials\<close>.\<close>

definition partials_onDidCreate :: "'t env \<Rightarrow> world \<Rightarrow> path \<Rightarrow> state \<Rightarrow> (exn + unit) \<times> state" where
  "partials_onDidCreate E w e st =
     (case getWorkspaceFolder w e of
        None \<Rightarrow> (Inr (), st)
      | Some workspaceFolder \<Rightarrow>
          (case readFile w e of
             Inl err \<Rightarrow> (Inl err, st)
           | Inr content \<Rightarrow>
               (let st1 = registerPartials
                            [partialNameGenerator E e workspaceFolder \<mapsto> content] st
                in update_each E w (panels st1) st1)))"

definition partials_onDidChange :: "'t env \<Rightarrow> world \<Rightarrow> path \<Rightarrow> state \<Rightarrow> (exn + unit) \<times> state" where
  "partials_onDidChange E w e st =
     (case getWorkspaceFolder w e of
        None \<Rightarrow> (Inr (), st)
      | Some workspaceFolder \<Rightarrow>
          (case readFile w e of
             Inl err \<Rightarrow> (Inl err, st)
           | Inr content \<Rightarrow>
               (let st1 = registerPartial (partialNameGenerator E e workspaceFolder) content st
                in update_each E w (panels st1) st1)))"

text \<open>The state when \<^verbatim>\<open>activate\<close> returns: no session, no flag, no partial.\<close>

definition emptyScope :: PreviewPanelScope where
  "emptyScope =
     \<lparr>document = \<lparr>doc_id = 0, fileName = [], uri_fsPath = []\<rparr>,
      contextFileName = [], panel_title = [], panel_localResourceRoots = [],
      panel_html = [], panel_disposed = False, contextWatcher_disposed = False,
      onPreviewPanelClosed = None\<rparr>"

definition initial :: state where
  "initial =
     \<lparr>heap = (\<lambda>r. emptyScope), next_ref = 0, panels = [],
      partialsRegisteredByWorkspace = {}, partials = Map.empty,
      informationMessages = [], scans = []\<rparr>"

section \<open>The pipeline in the words of the spec\<close>

text \<open>
  Compile, then render, then rewrite, stopping at the first stage that fails: the
  composition the spec gives for \<^verbatim>\<open>getCompiledHtml\<close>, to compare the source with.
\<close>

definition compile_render_rewrite ::
  "'t env \<Rightarrow> (string \<rightharpoonup> string) \<Rightarrow> string \<Rightarrow> json \<Rightarrow> TextDocument \<Rightarrow> exn + string" where
  "compile_render_rewrite E registry templateText contextValue templateDocument =
     (case hb_compile E templateText of
        Inl compileError \<Rightarrow> Inl compileError
      | Inr compiledTemplate \<Rightarrow>
          (case hb_template E registry compiledTemplate contextValue of
             Inl renderError \<Rightarrow> Inl renderError
           | Inr html \<Rightarrow> repathImages E html templateDocument))"

section \<open>Frames and invariants\<close>

text \<open>
  For the proofs: a state with the content of every panel erased. Two states that agree
  after erasing differ in panel contents only.
\<close>

definition erase_html :: "state \<Rightarrow> state" where
  "erase_html st = st\<lparr>heap := (\<lambda>r. (heap st r)\<lparr>panel_html := []\<rparr>)\<rparr>"

text \<open>For the proofs: the condition of \<^verbatim>\<open>workspaceDocumentChanged\<close>, on a session object.\<close>

definition relevant :: "TextDocument \<Rightarrow> PreviewPanelScope \<Rightarrow> bool" where
  "relevant e s = (doc_id e = doc_id (document s) \<or> fileName e = contextFileName s)"

section \<open>A sample environment\<close>

text \<open>
  A small engine, parser, serialiser and host, to run the model on concrete inputs. The
  engine knows a handful of templates: a fragment inclusion, a variable, a call of a
  helper that does not exist, and a template that does not parse.
\<close>

fun node_html :: "node \<Rightarrow> string" where
  "node_html (Text s) = s"
| "node_html (Element tag attribs children) =
     ''<'' @ tag @ concat (map (\<lambda>(k, v). '' '' @ k @ ''=\"'' @ v @ ''\"'') attribs) @ ''>''
       @ concat (map node_html children)
       @ (if tag = ''img'' then [] else ''</'' @ tag @ ''>'')"

definition three_images :: string where
  "three_images =
     ''<img src=\"data:image/png;base64,AAAA\"><img src=\"HTTP://x/y.png\"><img src=\"./img/logo.png\">''"

definition sample_load :: "string \<Rightarrow> node list" where
  "sample_load html =
     (if html = three_images then
        [Element ''img'' [(''src'', ''data:image/png;base64,AAAA'')] [],
         Element ''img'' [(''src'', ''HTTP://x/y.png'')] [],
         Element ''img'' [(''src'', ''./img/logo.png'')] []]
      else if html = ''<p><img alt=\"logo\"></p>'' then
        [Element ''p'' [] [Element ''img'' [(''alt'', ''logo'')] []]]
      else if html = ''<img src=\"a.png\"><img alt=\"x\">'' then
        [Element ''img'' [(''src'', ''a.png'')] [], Element ''img'' [(''alt'', ''x'')] []]
      else [Text html])"

definition sample_compile :: "string \<Rightarrow> exn + string" where
  "sample_compile templateText =
     (if templateText = ''{{#if}}'' then Inl (HandlebarsException ''Parse error'')
      else Inr templateText)"

definition sample_template :: "(string \<rightharpoonup> string) \<Rightarrow> string \<Rightarrow> json \<Rightarrow> exn + string" where
  "sample_template registry template templateContext =
     (if template = ''{{> header}}'' then
        (case registry ''header'' of
           None \<Rightarrow> Inl (HandlebarsException ''The partial header could not be found'')
         | Some content \<Rightarrow> Inr content)
      else if template = ''<p>{{name}}</p>'' then
        Inr (''<p>''
             @ (case templateContext of
                  JObject members \<Rightarrow>
                    (case map_of members ''name'' of Some (JString v) \<Rightarrow> v | _ \<Rightarrow> [])
                | _ \<Rightarrow> [])
             @ ''</p>'')
      else if template = ''<img src=\"a.png\">{{undefinedHelperCall 1}}'' then
        Inl (HandlebarsException ''Missing helper: undefinedHelperCall'')
      else Inr template)"

definition sample_parse :: "string \<Rightarrow> exn + json" where
  "sample_parse s =
     (if s = ''{\"name\":\"World\"}'' then Inr (JObject [(''name'', JString ''World'')])
      else if s = ''{}'' then Inr (JObject [])
      else Inl SyntaxError)"

definition sample_name :: "path \<Rightarrow> path \<Rightarrow> string" where
  "sample_name hbs root = takeWhile (\<lambda>c. c \<noteq> CHR ''.'') (drop (Suc (length root)) hbs)"

definition sampleE :: "string env" where
  "sampleE =
     \<lparr>hb_compile = sample_compile,
      hb_template = sample_template,
      JSON_parse = sample_parse,
      JSON_stringify = (\<lambda>err. ''{}''),
      loadDocument = sample_load,
      dom_html = (\<lambda>tree. concat (map node_html tree)),
      uri_with_path = (\<lambda>doc p. ''vscode-resource:'' @ p),
      partialNameGenerator = sample_name\<rparr>"

definition page :: TextDocument where
  "page = \<lparr>doc_id = 1, fileName = ''/proj/tpl/page.hbs'', uri_fsPath = ''/proj/tpl/page.hbs''\<rparr>"

definition sample_files :: "path \<Rightarrow> exn + string" where
  "sample_files p =
     (if p = ''/proj/tpl/page.hbs.json'' then Inr ''{\"name\":\"World\"}''
      else if p = ''/proj/header.hbs'' then Inr ''<h1>Hi</h1>''
      else if p = ''/proj/tpl/empty.json'' then Inr []
      else if p = ''/proj/tpl/truncated.json'' then Inr ''{\"name\":''
      else if p = ''/proj/tpl/text.json'' then Inr ''hello''
      else Inl SystemError)"

text \<open>The host with the page open in the active editor, showing the given text.\<close>

definition sampleW :: "string \<Rightarrow> world" where
  "sampleW templateText =
     \<lparr>readFile = sample_files,
      existsSync = (\<lambda>p. sample_files p \<noteq> Inl SystemError),
      getText = (\<lambda>d. templateText),
      activeTextEditor = Some page,
      getWorkspaceFolder = (\<lambda>p. if take 6 p = ''/proj/'' then Some ''/proj'' else None),
      workspaceFolders = Some [''/proj''],
      findFiles = (\<lambda>root. Inr [''/proj/header.hbs''])\<rparr>"

text \<open>
  A state with one session in the list, for the page, built as \<^verbatim>\<open>extension.ts\<close> builds
  sessions, with no second argument; and two other documents.
\<close>

definition page_scope :: PreviewPanelScope where
  "page_scope =
     \<lparr>document = page,
      contextFileName = ''/proj/tpl/page.hbs.json'',
      panel_title = ''Preview: page.hbs'',
      panel_localResourceRoots = [''/proj'', ''/proj/tpl''],
      panel_html = [],
      panel_disposed = False,
      contextWatcher_disposed = False,
      onPreviewPanelClosed = None\<rparr>"

definition previewing :: state where
  "previewing = initial\<lparr>heap := (heap initial)(0 := page_scope), next_ref := 1, panels := [0]\<rparr>"

definition page_context :: TextDocument where
  "page_context =
     \<lparr>doc_id = 2, fileName = ''/proj/tpl/page.hbs.json'', uri_fsPath = ''/proj/tpl/page.hbs.json''\<rparr>"

definition other_page :: TextDocument where
  "other_page = \<lparr>doc_id = 3, fileName = ''/proj/other.hbs'', uri_fsPath = ''/proj/other.hbs''\<rparr>"

text \<open>
  The same host while a fragment of the workspace cannot be read: the scan finds it and
  the load fails.
\<close>

definition unreadable :: world where
  "unreadable = (sampleW [])\<lparr>findFiles := (\<lambda>root. Inr [''/proj/missing.hbs''])\<rparr>"

section \<open>Resource paths of images\<close>

lemma take_eq_prefix: "(take (length p) y = p) = prefix p y"
  by (metis append_eq_conv_conj prefix_def take_is_prefix)

lemma filter_img_Some:
  "map_of attribs ''src'' = Some src \<Longrightarrow>
   filter_img attribs =
     Inr (\<not> (prefix ''data:'' (toLowerCase (trimLeft src)) \<or> prefix ''http'' (toLowerCase src)))"
proof -
  have d: "(toLowerCase (take 5 (trimLeft src)) = ''data:'') = prefix ''data:'' (toLowerCase (trimLeft src))"
    using take_eq_prefix [of "''data:''" "toLowerCase (trimLeft src)"]
    by (simp add: toLowerCase_def take_map eval_nat_numeral)
  have h: "startsWith (toLowerCase src) ''http'' = prefix ''http'' (toLowerCase src)"
    unfolding startsWith_def by (rule take_eq_prefix)
  assume "map_of attribs ''src'' = Some src"
  then show ?thesis by (simp add: filter_img_def d h)
qed

lemma select_img_each_img: "select_img (each_img f n) = map f (select_img n)"
  by (induction f n rule: each_img.induct) (simp_all add: map_concat cong: map_cong)

lemma select_img_each_img_list:
  "concat (map select_img (map (each_img f) tree)) = map f (concat (map select_img tree))"
  by (induction tree) (simp_all add: select_img_each_img)

lemma repath_img_src:
  "map_of attribs ''src'' = Some src \<Longrightarrow>
   map_of (repath_img E doc attribs) ''src'' =
     Some (if prefix ''data:'' (toLowerCase (trimLeft src)) \<or> prefix ''http'' (toLowerCase src)
           then src
           else uri_with_path E doc (path_join [path_dirname (fileName doc), src]))"
  by (simp add: repath_img_def filter_img_Some newSrc_def update_conv')

lemma repath_img_rest:
  "AList.delete ''src'' (repath_img E doc attribs) = AList.delete ''src'' attribs"
  by (simp add: repath_img_def delete_update_same split: sum.splits bool.splits option.splits)

lemma each_img_rest:
  "each_img (AList.delete ''src'') (each_img (repath_img E doc) n) = each_img (AList.delete ''src'') n"
  by (induction "repath_img E doc" n rule: each_img.induct) (simp_all add: repath_img_rest)

lemma filter_img_TypeError: "(filter_img attribs = Inl TypeError) = (map_of attribs ''src'' = None)"
  by (simp add: filter_img_def split: option.splits)

lemma repathImages_eq:
  "repathImages E html doc =
     (if \<exists>attribs \<in> set (concat (map select_img (loadDocument E html))). map_of attribs ''src'' = None
      then Inl TypeError
      else Inr (dom_html E (map (each_img (repath_img E doc)) (loadDocument E html))))"
  unfolding repathImages_def Let_def list_ex_iff filter_img_TypeError by (rule refl)

lemma repathImages_every_src:
  assumes "\<forall>attribs \<in> set (concat (map select_img (loadDocument E html))). map_of attribs ''src'' \<noteq> None"
  shows "\<exists>tree'.
           repathImages E html doc = Inr (dom_html E tree')
         \<and> map (\<lambda>attribs. map_of attribs ''src'') (concat (map select_img tree')) =
             map (\<lambda>attribs.
                    map_option
                      (\<lambda>src. if prefix ''data:'' (toLowerCase (trimLeft src))
                                 \<or> prefix ''http'' (toLowerCase src)
                              then src
                              else uri_with_path E doc
                                     (path_join [path_dirname (fileName doc), src]))
                      (map_of attribs ''src''))
               (concat (map select_img (loadDocument E html)))
         \<and> map (each_img (AList.delete ''src'')) tree' =
             map (each_img (AList.delete ''src'')) (loadDocument E html)"
proof -
  let ?tree = "loadDocument E html"
  let ?tree' = "map (each_img (repath_img E doc)) ?tree"
  have ret: "repathImages E html doc = Inr (dom_html E ?tree')"
    using assms by (simp add: repathImages_eq)
  have srcs: "map_of (repath_img E doc attribs) ''src'' =
                map_option
                  (\<lambda>src. if prefix ''data:'' (toLowerCase (trimLeft src))
                             \<or> prefix ''http'' (toLowerCase src)
                          then src
                          else uri_with_path E doc (path_join [path_dirname (fileName doc), src]))
                  (map_of attribs ''src'')"
    if "attribs \<in> set (concat (map select_img ?tree))" for attribs
  proof -
    from assms that obtain src where "map_of attribs ''src'' = Some src" by blast
    then show ?thesis by (simp add: repath_img_src)
  qed
  have "map (\<lambda>attribs. map_of attribs ''src'') (concat (map select_img ?tree')) =
        map (\<lambda>attribs. map_of (repath_img E doc attribs) ''src'') (concat (map select_img ?tree))"
    unfolding select_img_each_img_list by (simp add: comp_def)
  also have "\<dots> = map (\<lambda>attribs.
                    map_option
                      (\<lambda>src. if prefix ''data:'' (toLowerCase (trimLeft src))
                                 \<or> prefix ''http'' (toLowerCase src)
                              then src
                              else uri_with_path E doc
                                     (path_join [path_dirname (fileName doc), src]))
                      (map_of attribs ''src''))
               (concat (map select_img ?tree))"
    using srcs by (intro map_cong refl) 
  finally have s: "map (\<lambda>attribs. map_of attribs ''src'') (concat (map select_img ?tree')) = \<dots>" .
  have r: "map (each_img (AList.delete ''src'')) ?tree' = map (each_img (AList.delete ''src'')) ?tree"
    by (simp add: each_img_rest)
  from ret s r show ?thesis by blast
qed

text \<open>
  Claim C2, as amended. When every \<^verbatim>\<open>img\<close> element of the rendered HTML has a
  \<^verbatim>\<open>src\<close>, \<^verbatim>\<open>repathImages\<close> returns the serialisation of a tree in which the
  \<^verbatim>\<open>src\<close> of each \<^verbatim>\<open>img\<close> element, in document order, is unchanged if after
  trimming leading white space it begins, whatever the case, with \<^verbatim>\<open>data:\<close>, or if it
  begins, whatever the case, with \<^verbatim>\<open>http\<close>; any other \<^verbatim>\<open>src\<close> is joined to the
  directory of the template and replaced by the rewriter's output for that path; nothing
  else in the tree changes. When some \<^verbatim>\<open>img\<close> element has no \<^verbatim>\<open>src\<close>, the filter
  throws and \<^verbatim>\<open>repathImages\<close> returns no HTML: no \<^verbatim>\<open>src\<close> is kept or rewritten.
\<close>

theorem repathImages_rewrites_src:
  "((\<forall>attribs \<in> set (concat (map select_img (loadDocument E html))). map_of attribs ''src'' \<noteq> None) \<longrightarrow>
      (\<exists>tree'.
           repathImages E html doc = Inr (dom_html E tree')
         \<and> map (\<lambda>attribs. map_of attribs ''src'') (concat (map select_img tree')) =
             map (\<lambda>attribs.
                    map_option
                      (\<lambda>src. if prefix ''data:'' (toLowerCase (trimLeft src))
                                 \<or> prefix ''http'' (toLowerCase src)
                              then src
                              else uri_with_path E doc
                                     (path_join [path_dirname (fileName doc), src]))
                      (map_of attribs ''src''))
               (concat (map select_img (loadDocument E html)))
         \<and> map (each_img (AList.delete ''src'')) tree' =
             map (each_img (AList.delete ''src'')) (loadDocument E html)))
   \<and> ((\<exists>attribs \<in> set (concat (map select_img (loadDocument E html))). map_of attribs ''src'' = None) \<longrightarrow>
        repathImages E html doc = Inl TypeError)"
proof (intro conjI impI)
  assume "\<forall>attribs \<in> set (concat (map select_img (loadDocument E html))). map_of attribs ''src'' \<noteq> None"
  then show "\<exists>tree'.
           repathImages E html doc = Inr (dom_html E tree')
         \<and> map (\<lambda>attribs. map_of attribs ''src'') (concat (map select_img tree')) =
             map (\<lambda>attribs.
                    map_option
                      (\<lambda>src. if prefix ''data:'' (toLowerCase (trimLeft src))
                                 \<or> prefix ''http'' (toLowerCase src)
                              then src
                              else uri_with_path E doc
                                     (path_join [path_dirname (fileName doc), src]))
                      (map_of attribs ''src''))
               (concat (map select_img (loadDocument E html)))
         \<and> map (each_img (AList.delete ''src'')) tree' =
             map (each_img (AList.delete ''src'')) (loadDocument E html)"
    by (rule repathImages_every_src)
next
  assume "\<exists>attribs \<in> set (concat (map select_img (loadDocument E html))). map_of attribs ''src'' = None"
  then show "repathImages E html doc = Inl TypeError"
    by (simp add: repathImages_eq)
qed

text \<open>
  The three references of the spec: a data URI and \<^verbatim>\<open>HTTP://x/y.png\<close> stay, and
  \<^verbatim>\<open>./img/logo.png\<close> under \<^verbatim>\<open>/proj/tpl\<close> becomes the rewriter's output for
  \<^verbatim>\<open>/proj/tpl/img/logo.png\<close>. An image with a \<^verbatim>\<open>src\<close> followed by one without
  gives no HTML.
\<close>

theorem repathImages_rewrites_src_witness:
  "\<exists>tree'.
      repathImages sampleE three_images page = Inr (dom_html sampleE tree')
    \<and> map (\<lambda>attribs. map_of attribs ''src'') (concat (map select_img tree')) =
        [Some ''data:image/png;base64,AAAA'', Some ''HTTP://x/y.png'',
         Some ''vscode-resource:/proj/tpl/img/logo.png'']"
proof -
  have l: "loadDocument sampleE three_images =
             [Element ''img'' [(''src'', ''data:image/png;base64,AAAA'')] [],
              Element ''img'' [(''src'', ''HTTP://x/y.png'')] [],
              Element ''img'' [(''src'', ''./img/logo.png'')] []]"
    by (simp add: sampleE_def sample_load_def)
  have h: "\<forall>attribs \<in> set (concat (map select_img (loadDocument sampleE three_images))).
             map_of attribs ''src'' \<noteq> None"
    unfolding l by simp
  have p1: "prefix ''data:'' (toLowerCase (trimLeft ''data:image/png;base64,AAAA''))"
    by (simp add: toLowerCase_def toLowerCase_char_def trimLeft_def isWhiteSpace_def)
  have p2: "prefix ''http'' (toLowerCase ''HTTP://x/y.png'')"
    by (simp add: toLowerCase_def toLowerCase_char_def)
  have p3: "\<not> prefix ''data:'' (toLowerCase (trimLeft ''./img/logo.png''))"
           "\<not> prefix ''http'' (toLowerCase ''./img/logo.png'')"
    by (simp_all add: toLowerCase_def toLowerCase_char_def trimLeft_def isWhiteSpace_def)
  have j: "path_join [path_dirname (fileName page), ''./img/logo.png''] = ''/proj/tpl/img/logo.png''"
    by (simp add: page_def path_dirname_def path_join_def path_normalize_def
        normalizeString_def normalize_step_def)
  have u: "uri_with_path sampleE page ''/proj/tpl/img/logo.png'' = ''vscode-resource:/proj/tpl/img/logo.png''"
    by (simp add: sampleE_def)
  have m: "\<exists>attribs \<in> set (concat (map select_img
               (loadDocument sampleE ''<img src=\"a.png\"><img alt=\"x\">''))). map_of attribs ''src'' = None"
    by (simp add: sampleE_def sample_load_def three_images_def)
  have thrown: "repathImages sampleE ''<img src=\"a.png\"><img alt=\"x\">'' page = Inl TypeError"
    by (rule repathImages_rewrites_src [THEN conjunct2, THEN mp, OF m])
  from repathImages_rewrites_src [of sampleE three_images page, THEN conjunct1, THEN mp, OF h]
  obtain tree' where
    "repathImages sampleE three_images page = Inr (dom_html sampleE tree')"
    "map (\<lambda>attribs. map_of attribs ''src'') (concat (map select_img tree')) =
       map (\<lambda>attribs.
              map_option
                (\<lambda>src. if prefix ''data:'' (toLowerCase (trimLeft src))
                           \<or> prefix ''http'' (toLowerCase src)
                        then src
                        else uri_with_path sampleE page
                               (path_join [path_dirname (fileName page), src]))
                (map_of attribs ''src''))
         (concat (map select_img (loadDocument sampleE three_images)))"
    by blast
  then have "\<exists>tree'.
      repathImages sampleE three_images page = Inr (dom_html sampleE tree')
    \<and> map (\<lambda>attribs. map_of attribs ''src'') (concat (map select_img tree')) =
        [Some ''data:image/png;base64,AAAA'', Some ''HTTP://x/y.png'',
         Some ''vscode-resource:/proj/tpl/img/logo.png'']"
    unfolding l by (intro exI [of _ tree']) (simp add: p1 p2 p3 j u)
  with thrown show ?thesis by simp
qed

text \<open>
  The claim as stated fails: in \<^verbatim>\<open><img src="a.png"><img alt="x">\<close> the first image has
  the \<^verbatim>\<open>src\<close> \<^verbatim>\<open>a.png\<close>, neither a data URI nor an \<^verbatim>\<open>http\<close> reference, and it
  is not replaced by the rewriter's output: the second image has no \<^verbatim>\<open>src\<close>, the filter
  throws, and there is no rewritten HTML at all.
\<close>

theorem repathImages_mixed_counterexample:
  "loadDocument sampleE ''<img src=\"a.png\"><img alt=\"x\">'' =
     [Element ''img'' [(''src'', ''a.png'')] [], Element ''img'' [(''alt'', ''x'')] []]
   \<and> \<not> prefix ''data:'' (toLowerCase (trimLeft ''a.png''))
   \<and> \<not> prefix ''http'' (toLowerCase ''a.png'')
   \<and> repathImages sampleE ''<img src=\"a.png\"><img alt=\"x\">'' page = Inl TypeError"
  by (simp add: sampleE_def sample_load_def three_images_def repathImages_def filter_img_def
      toLowerCase_def toLowerCase_char_def trimLeft_def isWhiteSpace_def)

section \<open>The context file\<close>

text \<open>
  Claim C3. \<^verbatim>\<open>getContextData\<close> (the spec's \<^verbatim>\<open>loadContext\<close>) never raises: it returns
  the empty object when the file cannot be read (missing file, I/O error) and when its
  content does not parse (empty file, truncated JSON, text that is no JSON), and the
  parsed value when the content parses.
\<close>

theorem getContextData_never_raises:
  "(\<forall>err. getContextData E w contextFile \<noteq> Inl err)
   \<and> (\<forall>err. readFile w contextFile = Inl err \<longrightarrow>
         getContextData E w contextFile = Inr (JObject []))
   \<and> (\<forall>contextJson err. readFile w contextFile = Inr contextJson \<and> JSON_parse E contextJson = Inl err \<longrightarrow>
         getContextData E w contextFile = Inr (JObject []))
   \<and> (\<forall>contextJson v. readFile w contextFile = Inr contextJson \<and> JSON_parse E contextJson = Inr v \<longrightarrow>
         getContextData E w contextFile = Inr v)"
  by (auto simp: getContextData_def split: sum.splits)

text \<open>A missing file, an empty one, a truncated one, plain text, and a file that parses.\<close>

theorem getContextData_never_raises_witness:
  "getContextData sampleE (sampleW []) ''/proj/tpl/missing.json'' = Inr (JObject [])
   \<and> getContextData sampleE (sampleW []) ''/proj/tpl/empty.json'' = Inr (JObject [])
   \<and> getContextData sampleE (sampleW []) ''/proj/tpl/truncated.json'' = Inr (JObject [])
   \<and> getContextData sampleE (sampleW []) ''/proj/tpl/text.json'' = Inr (JObject [])
   \<and> getContextData sampleE (sampleW []) ''/proj/tpl/page.hbs.json'' =
       Inr (JObject [(''name'', JString ''World'')])"
proof -
  have r: "readFile (sampleW []) = sample_files" "JSON_parse sampleE = sample_parse"
    by (simp_all add: sampleW_def sampleE_def)
  have missing: "getContextData sampleE (sampleW []) ''/proj/tpl/missing.json'' = Inr (JObject [])"
    using getContextData_never_raises [of sampleE "sampleW []" "''/proj/tpl/missing.json''"]
    by (simp add: r sample_files_def)
  have empty: "getContextData sampleE (sampleW []) ''/proj/tpl/empty.json'' = Inr (JObject [])"
    using getContextData_never_raises [of sampleE "sampleW []" "''/proj/tpl/empty.json''"]
    by (simp add: r sample_files_def sample_parse_def)
  have truncated: "getContextData sampleE (sampleW []) ''/proj/tpl/truncated.json'' = Inr (JObject [])"
    using getContextData_never_raises [of sampleE "sampleW []" "''/proj/tpl/truncated.json''"]
    by (simp add: r sample_files_def sample_parse_def)
  have nonjson: "getContextData sampleE (sampleW []) ''/proj/tpl/text.json'' = Inr (JObject [])"
    using getContextData_never_raises [of sampleE "sampleW []" "''/proj/tpl/text.json''"]
    by (simp add: r sample_files_def sample_parse_def)
  have ok: "getContextData sampleE (sampleW []) ''/proj/tpl/page.hbs.json'' =
              Inr (JObject [(''name'', JString ''World'')])"
    using getContextData_never_raises [of sampleE "sampleW []" "''/proj/tpl/page.hbs.json''"]
    by (simp add: r sample_files_def sample_parse_def)
  from missing empty truncated nonjson ok show ?thesis by simp
qed

section \<open>The pipeline\<close>

lemma getContextData_Inr: "\<exists>contextValue. getContextData E w contextFile = Inr contextValue"
  by (simp add: getContextData_def split: sum.splits)

lemma renderTemplate_eq:
  "renderTemplate E template templateContext panel st =
     (case hb_template E (partials st) template templateContext of
        Inl err \<Rightarrow> (Inr None, showErrorPage panel (errorMessage E err) st)
      | Inr html \<Rightarrow> (Inr (Some html), st))"
  by (simp add: renderTemplate_def try_catch_def showErrorMessage_next_def split: sum.splits)

lemma getCompiledHtml_eq:
  assumes "getContextData E w contextFile = Inr contextValue"
  shows "getCompiledHtml E w doc contextFile panel st =
     (case compile_render_rewrite E (partials st) (getText w (doc_id doc)) contextValue doc of
        Inl err \<Rightarrow> (Inr None, showErrorPage panel (errorMessage E err) st)
      | Inr html \<Rightarrow> (Inr (Some html), st))"
  using assms
  by (simp add: getCompiledHtml_def compile_render_rewrite_def try_catch_def renderTemplate_eq
      showErrorMessage_next_def split: sum.splits)

lemma partials_showErrorPage [simp]: "partials (showErrorPage panel m st) = partials st"
  by (simp add: showErrorPage_def modify_def)

text \<open>
  Claim C4. \<^verbatim>\<open>getCompiledHtml\<close> is compile, then render, then rewrite, stopping at
  the first stage that fails: its result is \<^verbatim>\<open>false\<close> (here \<open>None\<close>) when the
  composition fails and the rewritten HTML otherwise. A compile failure and a render
  failure both give \<^verbatim>\<open>false\<close>, and whatever the template text and the context, no
  exception leaves the function.
\<close>

theorem getCompiledHtml_composes:
  assumes "getContextData E w contextFile = Inr contextValue"
  shows "fst (getCompiledHtml E w doc contextFile panel st) =
           Inr (case compile_render_rewrite E (partials st) (getText w (doc_id doc)) contextValue doc of
                  Inl err \<Rightarrow> None
                | Inr html \<Rightarrow> Some html)
       \<and> (\<forall>err. hb_compile E (getText w (doc_id doc)) = Inl err \<longrightarrow>
             fst (getCompiledHtml E w doc contextFile panel st) = Inr None)
       \<and> (\<forall>compiledTemplate err.
             hb_compile E (getText w (doc_id doc)) = Inr compiledTemplate
             \<and> hb_template E (partials st) compiledTemplate contextValue = Inl err \<longrightarrow>
             fst (getCompiledHtml E w doc contextFile panel st) = Inr None)
       \<and> (\<forall>compiledTemplate rendered.
             hb_compile E (getText w (doc_id doc)) = Inr compiledTemplate
             \<and> hb_template E (partials st) compiledTemplate contextValue = Inr rendered \<longrightarrow>
             fst (getCompiledHtml E w doc contextFile panel st) =
               Inr (case repathImages E rendered doc of Inl err \<Rightarrow> None | Inr html \<Rightarrow> Some html))
       \<and> (\<forall>err. fst (getCompiledHtml E w doc contextFile panel st) \<noteq> Inl err)"
  by (auto simp: getCompiledHtml_eq [OF assms] compile_render_rewrite_def split: sum.splits)

lemma sample_context:
  "getContextData sampleE (sampleW t) ''/proj/tpl/page.hbs.json'' =
     Inr (JObject [(''name'', JString ''World'')])"
  by (simp add: getContextData_def sampleW_def sampleE_def sample_files_def sample_parse_def)

text \<open>
  The two scenarios of the spec: \<^verbatim>\<open><p>{{name}}</p>\<close> with the context
  \<^verbatim>\<open>{"name":"World"}\<close> gives \<^verbatim>\<open><p>World</p>\<close>; a template that does not parse and a
  call of a helper that does not exist give \<^verbatim>\<open>false\<close>.
\<close>

theorem getCompiledHtml_composes_witness:
  "fst (getCompiledHtml sampleE (sampleW ''<p>{{name}}</p>'') page ''/proj/tpl/page.hbs.json'' 0 initial)
     = Inr (Some ''<p>World</p>'')
   \<and> fst (getCompiledHtml sampleE (sampleW ''{{#if}}'') page ''/proj/tpl/page.hbs.json'' 0 initial)
     = Inr None
   \<and> fst (getCompiledHtml sampleE (sampleW ''<img src=\"a.png\">{{undefinedHelperCall 1}}'') page
            ''/proj/tpl/page.hbs.json'' 0 initial)
     = Inr None"
proof -
  have E: "hb_compile sampleE = sample_compile" "hb_template sampleE = sample_template"
          "loadDocument sampleE = sample_load" "dom_html sampleE = (\<lambda>tree. concat (map node_html tree))"
    by (simp_all add: sampleE_def)
  have W: "getText (sampleW t) d = t" for t d
    by (simp add: sampleW_def)
  have ok: "hb_compile sampleE (getText (sampleW ''<p>{{name}}</p>'') (doc_id page)) = Inr ''<p>{{name}}</p>''
      \<and> hb_template sampleE (partials initial) ''<p>{{name}}</p>'' (JObject [(''name'', JString ''World'')])
          = Inr ''<p>World</p>''"
    by (simp add: E W sample_compile_def sample_template_def)
  have rp: "repathImages sampleE ''<p>World</p>'' page = Inr ''<p>World</p>''"
    by (simp add: repathImages_def E sample_load_def three_images_def)
  have ce: "hb_compile sampleE (getText (sampleW ''{{#if}}'') (doc_id page)) =
              Inl (HandlebarsException ''Parse error'')"
    by (simp add: E W sample_compile_def)
  have re: "hb_compile sampleE (getText (sampleW ''<img src=\"a.png\">{{undefinedHelperCall 1}}'') (doc_id page))
              = Inr ''<img src=\"a.png\">{{undefinedHelperCall 1}}''
      \<and> hb_template sampleE (partials initial) ''<img src=\"a.png\">{{undefinedHelperCall 1}}''
            (JObject [(''name'', JString ''World'')])
          = Inl (HandlebarsException ''Missing helper: undefinedHelperCall'')"
    by (simp add: E W sample_compile_def sample_template_def)
  have a: "fst (getCompiledHtml sampleE (sampleW ''<p>{{name}}</p>'') page ''/proj/tpl/page.hbs.json'' 0 initial)
     = Inr (Some ''<p>World</p>'')"
    using getCompiledHtml_composes [OF sample_context, of "''<p>{{name}}</p>''" page 0 initial] ok rp
    by (simp add: compile_render_rewrite_def)
  have b: "fst (getCompiledHtml sampleE (sampleW ''{{#if}}'') page ''/proj/tpl/page.hbs.json'' 0 initial)
     = Inr None"
    using getCompiledHtml_composes [OF sample_context, of "''{{#if}}''" page 0 initial] ce
    by (simp add: compile_render_rewrite_def)
  have c: "fst (getCompiledHtml sampleE (sampleW ''<img src=\"a.png\">{{undefinedHelperCall 1}}'') page
            ''/proj/tpl/page.hbs.json'' 0 initial) = Inr None"
    using getCompiledHtml_composes [OF sample_context,
        of "''<img src=\"a.png\">{{undefinedHelperCall 1}}''" page 0 initial] re
    by (simp add: compile_render_rewrite_def)
  from a b c show ?thesis by simp
qed

text \<open>
  Claim C10. When the rendered HTML has an \<^verbatim>\<open>img\<close> element with no \<^verbatim>\<open>src\<close>
  attribute, \<^verbatim>\<open>repathImages\<close> throws a TypeError in its filter; the \<^verbatim>\<open>catch\<close> of
  \<^verbatim>\<open>getCompiledHtml\<close> turns it into the result \<^verbatim>\<open>false\<close> and an error message for
  the panel, so the exception does not leave the pipeline.
\<close>

theorem img_without_src_yields_false:
  assumes "getContextData E w contextFile = Inr contextValue"
      and "hb_compile E (getText w (doc_id doc)) = Inr compiledTemplate"
      and "hb_template E (partials st) compiledTemplate contextValue = Inr rendered"
      and "\<exists>attribs \<in> set (concat (map select_img (loadDocument E rendered))).
             map_of attribs ''src'' = None"
  shows "repathImages E rendered doc = Inl TypeError
       \<and> getCompiledHtml E w doc contextFile panel st =
           (Inr None, showErrorPage panel (errorMessage E TypeError) st)"
  using assms by (simp add: getCompiledHtml_eq compile_render_rewrite_def repathImages_eq)

theorem img_without_src_yields_false_witness:
  "repathImages sampleE ''<p><img alt=\"logo\"></p>'' page = Inl TypeError
   \<and> getCompiledHtml sampleE (sampleW ''<p><img alt=\"logo\"></p>'') page ''/proj/tpl/page.hbs.json'' 0 initial
       = (Inr None, showErrorPage 0 (errorMessage sampleE TypeError) initial)"
proof -
  have c: "hb_compile sampleE (getText (sampleW ''<p><img alt=\"logo\"></p>'') (doc_id page))
             = Inr ''<p><img alt=\"logo\"></p>''"
    by (simp add: sampleE_def sampleW_def sample_compile_def)
  have r: "hb_template sampleE (partials initial) ''<p><img alt=\"logo\"></p>''
             (JObject [(''name'', JString ''World'')]) = Inr ''<p><img alt=\"logo\"></p>''"
    by (simp add: sampleE_def sample_template_def)
  have i: "\<exists>attribs \<in> set (concat (map select_img (loadDocument sampleE ''<p><img alt=\"logo\"></p>''))).
             map_of attribs ''src'' = None"
    by (simp add: sampleE_def sample_load_def three_images_def)
  from img_without_src_yields_false [OF sample_context c r i] show ?thesis .
qed

section \<open>What a render changes\<close>

lemma modify_same_html: "modify r (\<lambda>s. s\<lparr>panel_html := panel_html (heap st r)\<rparr>) st = st"
  by (simp add: modify_def)

lemma erase_modify_html [simp]:
  "erase_html (modify r (\<lambda>s. s\<lparr>panel_html := x\<rparr>) st) = erase_html st"
  by (simp add: erase_html_def modify_def fun_eq_iff)

lemma heap_modify_other: "r' \<noteq> r \<Longrightarrow> heap (modify r f st) r' = heap st r'"
  by (simp add: modify_def)

lemma erase_fields:
  assumes "erase_html a = erase_html b"
  shows "panels a = panels b" "next_ref a = next_ref b"
        "partialsRegisteredByWorkspace a = partialsRegisteredByWorkspace b"
        "partials a = partials b" "scans a = scans b"
        "informationMessages a = informationMessages b"
        "document (heap a r) = document (heap b r)"
        "contextFileName (heap a r) = contextFileName (heap b r)"
        "panel_disposed (heap a r) = panel_disposed (heap b r)"
        "contextWatcher_disposed (heap a r) = contextWatcher_disposed (heap b r)"
proof -
  have f: "g (erase_html a) = g (erase_html b)" for g :: "state \<Rightarrow> 'x"
    using assms by simp
  show "panels a = panels b" using f [of panels] by (simp add: erase_html_def)
  show "next_ref a = next_ref b" using f [of next_ref] by (simp add: erase_html_def)
  show "partialsRegisteredByWorkspace a = partialsRegisteredByWorkspace b"
    using f [of partialsRegisteredByWorkspace] by (simp add: erase_html_def)
  show "partials a = partials b" using f [of partials] by (simp add: erase_html_def)
  show "scans a = scans b" using f [of scans] by (simp add: erase_html_def)
  show "informationMessages a = informationMessages b"
    using f [of informationMessages] by (simp add: erase_html_def)
  have h: "(heap a r)\<lparr>panel_html := []\<rparr> = (heap b r)\<lparr>panel_html := []\<rparr>"
    using f [of "\<lambda>s. heap s r"] by (simp add: erase_html_def)
  show "document (heap a r) = document (heap b r)"
    using arg_cong [OF h, of document] by simp
  show "contextFileName (heap a r) = contextFileName (heap b r)"
    using arg_cong [OF h, of contextFileName] by simp
  show "panel_disposed (heap a r) = panel_disposed (heap b r)"
    using arg_cong [OF h, of panel_disposed] by simp
  show "contextWatcher_disposed (heap a r) = contextWatcher_disposed (heap b r)"
    using arg_cong [OF h, of contextWatcher_disposed] by simp
qed

lemma update_eq:
  assumes "getContextData E w (contextFileName (heap st this)) = Inr contextValue"
  shows "update E w this st =
     (Inr (),
      case compile_render_rewrite E (partials st) (getText w (doc_id (document (heap st this))))
             contextValue (document (heap st this)) of
        Inl err \<Rightarrow> showErrorPage this (errorMessage E err) st
      | Inr html \<Rightarrow> if html = [] then st else modify this (\<lambda>s. s\<lparr>panel_html := html\<rparr>) st)"
  by (simp add: update_def getCompiledHtml_eq [OF assms] set_html_if_truthy_def split: sum.splits)

lemma update_shape:
  "\<exists>x. update E w this st = (Inr (), modify this (\<lambda>s. s\<lparr>panel_html := x\<rparr>) st)"
proof -
  obtain contextValue where c: "getContextData E w (contextFileName (heap st this)) = Inr contextValue"
    using getContextData_Inr by blast
  show ?thesis
  proof (cases "compile_render_rewrite E (partials st) (getText w (doc_id (document (heap st this))))
             contextValue (document (heap st this))")
    case (Inl err)
    then have "update E w this st =
        (Inr (), modify this (\<lambda>s. s\<lparr>panel_html := errorPage (errorMessage E err)\<rparr>) st)"
      by (simp add: update_eq [OF c] showErrorPage_def)
    then show ?thesis by blast
  next
    case (Inr html)
    show ?thesis
    proof (cases "html = []")
      case True
      with Inr have "update E w this st = (Inr (), st)" by (simp add: update_eq [OF c])
      then show ?thesis using modify_same_html [of this st] by metis
    next
      case False
      with Inr have "update E w this st = (Inr (), modify this (\<lambda>s. s\<lparr>panel_html := html\<rparr>) st)"
        by (simp add: update_eq [OF c])
      then show ?thesis by blast
    qed
  qed
qed

lemma update_returns: "fst (update E w this st) = Inr ()"
  using update_shape [of E w this st] by auto

lemma update_erase: "erase_html (snd (update E w this st)) = erase_html st"
  using update_shape [of E w this st] by auto

lemma update_other: "r \<noteq> this \<Longrightarrow> heap (snd (update E w this st)) r = heap st r"
  using update_shape [of E w this st] by (auto simp: heap_modify_other)

lemma contextWatcher_onDidChange_update:
  "contextWatcher_onDidChange E w this st = update E w this st"
  by (simp add: contextWatcher_onDidChange_def update_def)

lemma update_each_returns: "fst (update_each E w ps st) = Inr ()"
proof (induction ps arbitrary: st)
  case Nil
  show ?case by simp
next
  case (Cons p ps)
  from update_returns [of E w p st] obtain st' where "update E w p st = (Inr (), st')"
    by (cases "update E w p st") auto
  then show ?case using Cons.IH [of st'] by simp
qed

lemma update_each_step:
  "update_each E w (p # ps) st = update_each E w ps (snd (update E w p st))"
  using update_returns [of E w p st] by (cases "update E w p st") auto

lemma update_each_erase: "erase_html (snd (update_each E w ps st)) = erase_html st"
  by (induction ps arbitrary: st) (simp_all add: update_each_step update_erase del: update_each.simps(2))

lemma update_each_other:
  "r \<notin> set ps \<Longrightarrow> heap (snd (update_each E w ps st)) r = heap st r"
  by (induction ps arbitrary: st) (simp_all add: update_each_step update_other del: update_each.simps(2))

lemma workspaceDocumentChanged_returns: "fst (workspaceDocumentChanged E w this e st) = Inr ()"
  by (simp add: workspaceDocumentChanged_def update_returns)

lemma workspaceDocumentChanged_erase:
  "erase_html (snd (workspaceDocumentChanged E w this e st)) = erase_html st"
  by (simp add: workspaceDocumentChanged_def update_erase)

lemma workspaceDocumentChanged_other:
  "r \<noteq> this \<Longrightarrow> heap (snd (workspaceDocumentChanged E w this e st)) r = heap st r"
  by (simp add: workspaceDocumentChanged_def update_other)

lemma workspaceDocumentChanged_each_step:
  "workspaceDocumentChanged_each E w (p # ps) e st =
     workspaceDocumentChanged_each E w ps e (snd (workspaceDocumentChanged E w p e st))"
  using workspaceDocumentChanged_returns [of E w p e st]
  by (cases "workspaceDocumentChanged E w p e st") auto

lemma workspaceDocumentChanged_each_erase:
  "erase_html (snd (workspaceDocumentChanged_each E w ps e st)) = erase_html st"
  by (induction ps arbitrary: st)
     (simp_all add: workspaceDocumentChanged_each_step workspaceDocumentChanged_erase
        del: workspaceDocumentChanged_each.simps(2))

lemma workspaceDocumentChanged_each_returns:
  "fst (workspaceDocumentChanged_each E w ps e st) = Inr ()"
  by (induction ps arbitrary: st)
     (simp_all add: workspaceDocumentChanged_each_step del: workspaceDocumentChanged_each.simps(2))

section \<open>The session\<close>

lemma update_heap_this:
  assumes "getContextData E w (contextFileName (heap st this)) = Inr contextValue"
  shows "heap (snd (update E w this st)) this =
     (case compile_render_rewrite E (partials st) (getText w (doc_id (document (heap st this))))
             contextValue (document (heap st this)) of
        Inl err \<Rightarrow> (heap st this)\<lparr>panel_html := errorPage (errorMessage E err)\<rparr>
      | Inr html \<Rightarrow> if html = [] then heap st this else (heap st this)\<lparr>panel_html := html\<rparr>)"
  by (simp add: update_eq [OF assms] showErrorPage_def modify_def split: sum.splits)

text \<open>
  Claim C5. When the compile or the render fails during an update, the update returns
  without an exception and the content of the panel is the error page of
  \<^verbatim>\<open>showErrorPage\<close>, written out below: a document whose body is a flex box that centres
  its content on both axes and holds one \<^verbatim>\<open>span\<close> with the message, the text
  \<^verbatim>\<open>Error rendering handlebars template: \<close> followed by the error. The panel and the
  watcher are as live as before and the list of sessions is unchanged; and the next
  trigger whose pipeline succeeds with a non-empty page, an update or a change of the
  context file, puts that page in the panel.
\<close>

theorem update_failure_shows_error_page:
  assumes ctx: "getContextData E w (contextFileName (heap st this)) = Inr contextValue"
      and failure:
        "hb_compile E (getText w (doc_id (document (heap st this)))) = Inl err
         \<or> (\<exists>compiledTemplate.
               hb_compile E (getText w (doc_id (document (heap st this)))) = Inr compiledTemplate
               \<and> hb_template E (partials st) compiledTemplate contextValue = Inl err)"
      and ctx': "getContextData E w' (contextFileName (heap st this)) = Inr contextValue'"
      and success:
        "compile_render_rewrite E (partials st) (getText w' (doc_id (document (heap st this))))
           contextValue' (document (heap st this)) = Inr html"
        "html \<noteq> []"
  shows "\<exists>st'. update E w this st = (Inr (), st')
           \<and> panel_html (heap st' this) =
               [CHR 0x0A] @ ''        <html style=\"height: 100%;\">'' @
               [CHR 0x0A] @ ''        <body style=\"height: 100%; display: flex; align-items: center; align-content: center; justify-content: center;\"><span>''
                 @ ''Error rendering handlebars template: '' @ JSON_stringify E err @ ''</span></body>'' @
               [CHR 0x0A] @ ''        </html>'' @
               [CHR 0x0A] @ ''        ''
           \<and> panel_disposed (heap st' this) = panel_disposed (heap st this)
           \<and> contextWatcher_disposed (heap st' this) = contextWatcher_disposed (heap st this)
           \<and> panels st' = panels st
           \<and> (\<exists>st''. update E w' this st' = (Inr (), st'')
                  \<and> panel_html (heap st'' this) = html
                  \<and> contextWatcher_onDidChange E w' this st' = (Inr (), st''))"
proof -
  let ?st' = "snd (update E w this st)"
  let ?st'' = "snd (update E w' this ?st')"
  have crr: "compile_render_rewrite E (partials st) (getText w (doc_id (document (heap st this))))
               contextValue (document (heap st this)) = Inl err"
    using failure by (auto simp: compile_render_rewrite_def)
  have e: "erase_html ?st' = erase_html st" by (rule update_erase)
  note f = erase_fields [OF e]
  have 1: "update E w this st = (Inr (), ?st')"
    using update_returns [of E w this st] by (cases "update E w this st") simp
  have 2: "panel_html (heap ?st' this) =
               [CHR 0x0A] @ ''        <html style=\"height: 100%;\">'' @
               [CHR 0x0A] @ ''        <body style=\"height: 100%; display: flex; align-items: center; align-content: center; justify-content: center;\"><span>''
                 @ ''Error rendering handlebars template: '' @ JSON_stringify E err @ ''</span></body>'' @
               [CHR 0x0A] @ ''        </html>'' @
               [CHR 0x0A] @ ''        ''"
    by (simp add: update_heap_this [OF ctx] crr errorPage_def errorMessage_def)
  have ctx2: "getContextData E w' (contextFileName (heap ?st' this)) = Inr contextValue'"
    using ctx' by (simp add: f)
  have 3: "update E w' this ?st' = (Inr (), ?st'')"
    using update_returns [of E w' this ?st'] by (cases "update E w' this ?st'") simp
  have 4: "panel_html (heap ?st'' this) = html"
    using success by (simp add: update_heap_this [OF ctx2] f)
  from 1 2 3 4 f(1) f(9) [of this] f(10) [of this] show ?thesis
    by (intro exI [of _ ?st'] conjI exI [of _ ?st'']) (simp_all add: contextWatcher_onDidChange_update)
qed

lemma update_heap_cong:
  assumes "partials a = partials b" "heap a r = heap b r"
  shows "heap (snd (update E w r a)) r = heap (snd (update E w r b)) r"
proof -
  obtain c where c: "getContextData E w (contextFileName (heap b r)) = Inr c"
    using getContextData_Inr by blast
  then have c': "getContextData E w (contextFileName (heap a r)) = Inr c"
    using assms by simp
  show ?thesis
    by (simp add: update_heap_this [OF c] update_heap_this [OF c'] assms split: sum.splits)
qed

lemma update_twice:
  "heap (snd (update E w r (snd (update E w r st)))) r = heap (snd (update E w r st)) r"
proof -
  let ?st' = "snd (update E w r st)"
  obtain c where c: "getContextData E w (contextFileName (heap st r)) = Inr c"
    using getContextData_Inr by blast
  note f = erase_fields [OF update_erase [of E w r st]]
  have c': "getContextData E w (contextFileName (heap ?st' r)) = Inr c"
    using c by (simp add: f)
  show ?thesis
    by (simp add: update_heap_this [OF c'] f) (simp add: update_heap_this [OF c] split: sum.splits)
qed

lemma relevant_erase:
  "erase_html a = erase_html b \<Longrightarrow> relevant e (heap a r) = relevant e (heap b r)"
  using erase_fields(7,8) [of a b r] by (simp add: relevant_def)

lemma workspaceDocumentChanged_relevant:
  "workspaceDocumentChanged E w r e st =
     (if relevant e (heap st r) then update E w r st else (Inr (), st))"
  by (simp add: workspaceDocumentChanged_def relevant_def)

lemma workspaceDocumentChanged_each_other:
  "r \<notin> set ps \<Longrightarrow> heap (snd (workspaceDocumentChanged_each E w ps e st)) r = heap st r"
  by (induction ps arbitrary: st)
     (simp_all add: workspaceDocumentChanged_each_step workspaceDocumentChanged_other
        del: workspaceDocumentChanged_each.simps(2))

lemma workspaceDocumentChanged_each_heap:
  "heap (snd (workspaceDocumentChanged_each E w ps e st)) r =
     (if r \<in> set ps \<and> relevant e (heap st r) then heap (snd (update E w r st)) r else heap st r)"
proof (induction ps arbitrary: st)
  case Nil
  show ?case by simp
next
  case (Cons p ps)
  let ?st1 = "snd (workspaceDocumentChanged E w p e st)"
  have e1: "erase_html ?st1 = erase_html st" by (rule workspaceDocumentChanged_erase)
  have rel: "relevant e (heap ?st1 r) = relevant e (heap st r)" by (rule relevant_erase [OF e1])
  have par: "partials ?st1 = partials st" by (rule erase_fields(4) [OF e1])
  have step: "heap (snd (workspaceDocumentChanged_each E w (p # ps) e st)) r =
        (if r \<in> set ps \<and> relevant e (heap st r) then heap (snd (update E w r ?st1)) r
         else heap ?st1 r)"
    by (simp add: workspaceDocumentChanged_each_step Cons.IH rel del: workspaceDocumentChanged_each.simps(2))
  show ?case
  proof (cases "p = r")
    case True
    show ?thesis
    proof (cases "relevant e (heap st r)")
      case rl: True
      show ?thesis unfolding step using True rl
        by (simp add: workspaceDocumentChanged_relevant update_twice)
    next
      case False
      then show ?thesis unfolding step using True by (simp add: workspaceDocumentChanged_relevant)
    qed
  next
    case False
    then have h: "heap ?st1 r = heap st r" by (simp add: workspaceDocumentChanged_other)
    have "heap (snd (update E w r ?st1)) r = heap (snd (update E w r st)) r"
      by (rule update_heap_cong [OF par h])
    then show ?thesis unfolding step using False by (simp add: h)
  qed
qed

text \<open>
  Claim C6. On a document-change notification a session re-renders exactly when the
  changed document is its own document (the same object) or has the path of its context
  file. Through the broadcast to all sessions, the session object of a session the change
  is relevant to is what its own update makes it, and that of any other session is
  untouched, its panel content included.
\<close>

theorem workspaceDocumentChanged_iff_relevant:
  "workspaceDocumentChanged E w this e st =
     (if doc_id e = doc_id (document (heap st this)) \<or> fileName e = contextFileName (heap st this)
      then update E w this st
      else (Inr (), st))
   \<and> (\<forall>r \<in> set (panels st).
        heap (snd (onDidChangeTextDocument E w e st)) r =
          (if doc_id e = doc_id (document (heap st r)) \<or> fileName e = contextFileName (heap st r)
           then heap (snd (update E w r st)) r
           else heap st r))
   \<and> panels (snd (onDidChangeTextDocument E w e st)) = panels st"
proof -
  have "panels (snd (onDidChangeTextDocument E w e st)) = panels st"
    unfolding onDidChangeTextDocument_def
    by (rule erase_fields(1) [OF workspaceDocumentChanged_each_erase])
  then show ?thesis
    by (simp add: workspaceDocumentChanged_def onDidChangeTextDocument_def
        workspaceDocumentChanged_each_heap relevant_def)
qed

text \<open>The sample state and environment, field by field.\<close>

lemma previewing_fields:
  "heap previewing 0 = page_scope" "panels previewing = [0]" "partials previewing = Map.empty"
  "next_ref previewing = 1"
  by (simp_all add: previewing_def initial_def)

lemma page_scope_fields:
  "document page_scope = page" "contextFileName page_scope = ''/proj/tpl/page.hbs.json''"
  "panel_disposed page_scope = False" "contextWatcher_disposed page_scope = False"
  "onPreviewPanelClosed page_scope = None"
  by (simp_all add: page_scope_def)

lemma sample_env_fields:
  "hb_compile sampleE = sample_compile" "hb_template sampleE = sample_template"
  "loadDocument sampleE = sample_load" "dom_html sampleE = (\<lambda>tree. concat (map node_html tree))"
  by (simp_all add: sampleE_def)

lemma sample_getText: "getText (sampleW t) d = t"
  by (simp add: sampleW_def)

text \<open>
  A template that does not parse shows the error page in the panel of the sample session;
  the next update, on a template that renders, shows the rendered page.
\<close>

theorem update_failure_shows_error_page_witness:
  "\<exists>st'. update sampleE (sampleW ''{{#if}}'') 0 previewing = (Inr (), st')
     \<and> panel_html (heap st' 0) =
          [CHR 0x0A] @ ''        <html style=\"height: 100%;\">'' @
          [CHR 0x0A] @ ''        <body style=\"height: 100%; display: flex; align-items: center; align-content: center; justify-content: center;\"><span>Error rendering handlebars template: {}</span></body>'' @
          [CHR 0x0A] @ ''        </html>'' @
          [CHR 0x0A] @ ''        ''
     \<and> panel_disposed (heap st' 0) = panel_disposed (heap previewing 0)
     \<and> contextWatcher_disposed (heap st' 0) = contextWatcher_disposed (heap previewing 0)
     \<and> panels st' = panels previewing
     \<and> (\<exists>st''. update sampleE (sampleW ''<p>{{name}}</p>'') 0 st' = (Inr (), st'')
            \<and> panel_html (heap st'' 0) = ''<p>World</p>''
            \<and> contextWatcher_onDidChange sampleE (sampleW ''<p>{{name}}</p>'') 0 st' = (Inr (), st''))"
proof -
  have c: "getContextData sampleE (sampleW t) (contextFileName (heap previewing 0)) =
             Inr (JObject [(''name'', JString ''World'')])" for t
    by (simp add: previewing_fields page_scope_fields sample_context)
  have f: "hb_compile sampleE (getText (sampleW ''{{#if}}'') (doc_id (document (heap previewing 0))))
             = Inl (HandlebarsException ''Parse error'')
           \<or> (\<exists>compiledTemplate.
                 hb_compile sampleE (getText (sampleW ''{{#if}}'') (doc_id (document (heap previewing 0))))
                   = Inr compiledTemplate
                 \<and> hb_template sampleE (partials previewing) compiledTemplate
                     (JObject [(''name'', JString ''World'')]) = Inl (HandlebarsException ''Parse error''))"
    by (simp add: sample_env_fields sample_getText sample_compile_def)
  have s: "compile_render_rewrite sampleE (partials previewing)
             (getText (sampleW ''<p>{{name}}</p>'') (doc_id (document (heap previewing 0))))
             (JObject [(''name'', JString ''World'')]) (document (heap previewing 0)) = Inr ''<p>World</p>''"
    by (simp add: compile_render_rewrite_def sample_env_fields sample_getText sample_compile_def
        sample_template_def repathImages_def sample_load_def three_images_def)
  have n: "''<p>World</p>'' \<noteq> []" by simp
  have j: "JSON_stringify sampleE (HandlebarsException ''Parse error'') = ''{}''"
    by (simp add: sampleE_def)
  from update_failure_shows_error_page [OF c f c s n] show ?thesis
    by (simp add: j)
qed

text \<open>
  The sample session re-renders for its own document and for the document of its context
  file, and not for another document.
\<close>

theorem workspaceDocumentChanged_iff_relevant_witness:
  "workspaceDocumentChanged sampleE (sampleW []) 0 page previewing = update sampleE (sampleW []) 0 previewing
   \<and> workspaceDocumentChanged sampleE (sampleW []) 0 page_context previewing
       = update sampleE (sampleW []) 0 previewing
   \<and> workspaceDocumentChanged sampleE (sampleW []) 0 other_page previewing = (Inr (), previewing)
   \<and> heap (snd (onDidChangeTextDocument sampleE (sampleW []) other_page previewing)) 0 = heap previewing 0
   \<and> heap (snd (onDidChangeTextDocument sampleE (sampleW []) page previewing)) 0
       = heap (snd (update sampleE (sampleW []) 0 previewing)) 0"
  using workspaceDocumentChanged_iff_relevant [of sampleE "sampleW []" 0 page previewing]
        workspaceDocumentChanged_iff_relevant [of sampleE "sampleW []" 0 page_context previewing]
        workspaceDocumentChanged_iff_relevant [of sampleE "sampleW []" 0 other_page previewing]
  by (simp add: previewing_fields page_scope_fields page_def page_context_def other_page_def)

section \<open>Fragments\<close>

lemma update_each_html:
  assumes "this \<in> set ps"
      and "getContextData E w (contextFileName (heap st this)) = Inr contextValue"
      and "compile_render_rewrite E (partials st) (getText w (doc_id (document (heap st this))))
             contextValue (document (heap st this)) = Inr html"
      and "html \<noteq> []"
  shows "panel_html (heap (snd (update_each E w ps st)) this) = html"
  using assms
proof (induction ps arbitrary: st)
  case Nil
  then show ?case by simp
next
  case (Cons p ps)
  let ?st1 = "snd (update E w p st)"
  note f = erase_fields [OF update_erase [of E w p st]]
  show ?case
  proof (cases "this \<in> set ps")
    case True
    have "panel_html (heap (snd (update_each E w ps ?st1)) this) = html"
      using Cons.prems by (intro Cons.IH [OF True]) (simp_all add: f)
    then show ?thesis by (simp add: update_each_step del: update_each.simps(2))
  next
    case False
    with Cons.prems(1) have p: "p = this" by simp
    have "heap (snd (update_each E w ps ?st1)) this = heap ?st1 this"
      using False by (rule update_each_other)
    moreover have "panel_html (heap ?st1 this) = html"
      unfolding p using Cons.prems by (simp add: update_heap_this)
    ultimately show ?thesis by (simp add: update_each_step del: update_each.simps(2))
  qed
qed

text \<open>
  Claim C7. When a fragment file changes, its content is registered under its name
  whatever was registered there before (the last write wins), the same sessions stay, and
  every session whose pipeline succeeds under the new table of partials with a non-empty
  page shows that page: a render that includes the fragment by name reads the latest
  content.
\<close>

theorem partial_reregistration_last_write_wins:
  assumes folder: "getWorkspaceFolder w e = Some workspaceFolder"
      and content: "readFile w e = Inr content"
  shows "\<exists>st'. partials_onDidChange E w e st = (Inr (), st')
           \<and> partials st' = (partials st)(partialNameGenerator E e workspaceFolder \<mapsto> content)
           \<and> partials st' (partialNameGenerator E e workspaceFolder) = Some content
           \<and> panels st' = panels st
           \<and> next_ref st' = next_ref st
           \<and> (\<forall>r. document (heap st' r) = document (heap st r)
                  \<and> contextFileName (heap st' r) = contextFileName (heap st r)
                  \<and> panel_disposed (heap st' r) = panel_disposed (heap st r)
                  \<and> contextWatcher_disposed (heap st' r) = contextWatcher_disposed (heap st r))
           \<and> (\<forall>this \<in> set (panels st). \<forall>contextValue html.
                 getContextData E w (contextFileName (heap st this)) = Inr contextValue
                 \<and> compile_render_rewrite E
                     ((partials st)(partialNameGenerator E e workspaceFolder \<mapsto> content))
                     (getText w (doc_id (document (heap st this)))) contextValue
                     (document (heap st this)) = Inr html
                 \<and> html \<noteq> [] \<longrightarrow>
                 panel_html (heap st' this) = html)"
proof -
  let ?st1 = "registerPartial (partialNameGenerator E e workspaceFolder) content st"
  let ?st' = "snd (update_each E w (panels ?st1) ?st1)"
  have r: "partials ?st1 = (partials st)(partialNameGenerator E e workspaceFolder \<mapsto> content)"
          "panels ?st1 = panels st" "heap ?st1 = heap st" "next_ref ?st1 = next_ref st"
    by (simp_all add: registerPartial_def)
  have 1: "partials_onDidChange E w e st = (Inr (), ?st')"
    using update_each_returns [of E w "panels ?st1" ?st1]
    by (cases "update_each E w (panels ?st1) ?st1")
       (simp add: partials_onDidChange_def folder content Let_def)
  note f = erase_fields [OF update_each_erase [of E w "panels ?st1" ?st1]]
  have 2: "partials ?st' = (partials st)(partialNameGenerator E e workspaceFolder \<mapsto> content)"
    using f(4) r(1) by simp
  have 3: "panels ?st' = panels st" "next_ref ?st' = next_ref st"
    using f(1,2) r(2,4) by simp_all
  have 4: "panel_html (heap ?st' this) = html"
    if "this \<in> set (panels st)"
       "getContextData E w (contextFileName (heap st this)) = Inr contextValue"
       "compile_render_rewrite E ((partials st)(partialNameGenerator E e workspaceFolder \<mapsto> content))
          (getText w (doc_id (document (heap st this)))) contextValue (document (heap st this)) = Inr html"
       "html \<noteq> []" for this contextValue html
    using that by (intro update_each_html [where contextValue = contextValue]) (simp_all add: r)
  have 5: "document (heap ?st' x) = document (heap st x)"
          "contextFileName (heap ?st' x) = contextFileName (heap st x)"
          "panel_disposed (heap ?st' x) = panel_disposed (heap st x)"
          "contextWatcher_disposed (heap ?st' x) = contextWatcher_disposed (heap st x)" for x
    using f(7-10) [of x] r(3) by simp_all
  from 1 2 3 4 5 show ?thesis
    by (intro exI [of _ ?st']) (simp add: r)
qed

lemma sample_header_name: "partialNameGenerator sampleE ''/proj/header.hbs'' ''/proj'' = ''header''"
  by (simp add: sampleE_def sample_name_def)

text \<open>
  The scenario of the spec: \<^verbatim>\<open>header\<close> is registered as \<^verbatim>\<open><h1>Hi</h1>\<close> and the
  template \<^verbatim>\<open>{{> header}}\<close> shows it; the file changes, and the same session shows the
  new content.
\<close>

theorem partial_reregistration_last_write_wins_witness:
  "\<exists>st1 st2.
      partials_onDidChange sampleE (sampleW ''{{> header}}'') ''/proj/header.hbs'' previewing = (Inr (), st1)
    \<and> partials st1 ''header'' = Some ''<h1>Hi</h1>''
    \<and> panel_html (heap st1 0) = ''<h1>Hi</h1>''
    \<and> partials_onDidChange sampleE
          ((sampleW ''{{> header}}'')\<lparr>readFile := (\<lambda>p. Inr ''<h1>Hello</h1>'')\<rparr>)
          ''/proj/header.hbs'' st1 = (Inr (), st2)
    \<and> partials st2 ''header'' = Some ''<h1>Hello</h1>''
    \<and> panel_html (heap st2 0) = ''<h1>Hello</h1>''
    \<and> panels st2 = [0]"
proof -
  let ?w1 = "sampleW ''{{> header}}''"
  let ?w2 = "(sampleW ''{{> header}}'')\<lparr>readFile := (\<lambda>p. Inr ''<h1>Hello</h1>'')\<rparr>"
  have folder: "getWorkspaceFolder ?w1 ''/proj/header.hbs'' = Some ''/proj''"
               "getWorkspaceFolder ?w2 ''/proj/header.hbs'' = Some ''/proj''"
    by (simp_all add: sampleW_def)
  have read: "readFile ?w1 ''/proj/header.hbs'' = Inr ''<h1>Hi</h1>''"
             "readFile ?w2 ''/proj/header.hbs'' = Inr ''<h1>Hello</h1>''"
    by (simp_all add: sampleW_def sample_files_def)
  have shown: "getText ?w1 d = ''{{> header}}''" "getText ?w2 d = ''{{> header}}''" for d
    by (simp_all add: sampleW_def)
  have ctx1: "getContextData sampleE ?w1 ''/proj/tpl/page.hbs.json'' = Inr (JObject [(''name'', JString ''World'')])"
    by (rule sample_context)
  have ctx2: "getContextData sampleE ?w2 ''/proj/tpl/page.hbs.json'' = Inr (JObject [])"
    by (simp add: getContextData_def sampleE_def sample_parse_def)
  have render: "compile_render_rewrite sampleE (registry(''header'' \<mapsto> c)) ''{{> header}}'' v page
                  = repathImages sampleE c page" for registry c v
    by (simp add: compile_render_rewrite_def sample_env_fields sample_compile_def sample_template_def)
  have rp: "repathImages sampleE ''<h1>Hi</h1>'' page = Inr ''<h1>Hi</h1>''"
           "repathImages sampleE ''<h1>Hello</h1>'' page = Inr ''<h1>Hello</h1>''"
    by (simp_all add: repathImages_def sample_env_fields sample_load_def three_images_def)
  from partial_reregistration_last_write_wins [OF folder(1) read(1), of sampleE previewing]
  obtain st1 where st1:
    "partials_onDidChange sampleE ?w1 ''/proj/header.hbs'' previewing = (Inr (), st1)"
    "partials st1 ''header'' = Some ''<h1>Hi</h1>''"
    "panels st1 = [0]"
    "document (heap st1 0) = page" "contextFileName (heap st1 0) = ''/proj/tpl/page.hbs.json''"
    "panel_html (heap st1 0) = ''<h1>Hi</h1>''"
    by (auto simp: sample_header_name previewing_fields page_scope_fields ctx1 shown render rp)
  from partial_reregistration_last_write_wins [OF folder(2) read(2), of sampleE st1]
  obtain st2 where st2:
    "partials_onDidChange sampleE ?w2 ''/proj/header.hbs'' st1 = (Inr (), st2)"
    "partials st2 ''header'' = Some ''<h1>Hello</h1>''"
    "panels st2 = [0]"
    "panel_html (heap st2 0) = ''<h1>Hello</h1>''"
    by (auto simp: sample_header_name st1 ctx2 shown render rp)
  from st1 st2 show ?thesis by blast
qed

section \<open>Closing a panel\<close>

lemma panel_dispose_fields:
  "next_ref (panel_dispose r st) = next_ref st"
  "partialsRegisteredByWorkspace (panel_dispose r st) = partialsRegisteredByWorkspace st"
  "partials (panel_dispose r st) = partials st"
  "scans (panel_dispose r st) = scans st"
  "informationMessages (panel_dispose r st) = informationMessages st"
  "document (heap (panel_dispose r st) x) = document (heap st x)"
  "contextFileName (heap (panel_dispose r st) x) = contextFileName (heap st x)"
  "panel_html (heap (panel_dispose r st) x) = panel_html (heap st x)"
  "panel_disposed (heap (panel_dispose r st) x) = (panel_disposed (heap st x) \<or> x = r)"
  "contextWatcher_disposed (heap (panel_dispose r st) x) =
     (contextWatcher_disposed (heap st x) \<or> (x = r \<and> \<not> panel_disposed (heap st r)))"
  "panels (panel_dispose r st) =
     (if panel_disposed (heap st r) then panels st
      else case onPreviewPanelClosed (heap st r) of
             None \<Rightarrow> panels st
           | Some callback \<Rightarrow> callback r (panels st))"
  by (auto simp: panel_dispose_def panel_onDidDispose_def modify_def Let_def split: option.splits)

lemma closeExisting_fields:
  "next_ref (closeExisting doc st) = next_ref st"
  "partialsRegisteredByWorkspace (closeExisting doc st) = partialsRegisteredByWorkspace st"
  "partials (closeExisting doc st) = partials st"
  "scans (closeExisting doc st) = scans st"
  by (simp_all add: closeExisting_def disposePreviewPanel_def panel_dispose_fields Let_def
      split: option.splits)

lemma partialsRegistered_closeExisting:
  "partialsRegistered root (closeExisting doc st) = partialsRegistered root st"
  by (simp add: partialsRegistered_def closeExisting_fields)

lemma closeExisting_empty: "panels st = [] \<Longrightarrow> closeExisting doc st = st"
  by (simp add: closeExisting_def)

section \<open>The command\<close>

lemma getContextFileName_fields:
  "heap (snd (getContextFileName w f st)) = heap st"
  "next_ref (snd (getContextFileName w f st)) = next_ref st"
  "panels (snd (getContextFileName w f st)) = panels st"
  "partialsRegisteredByWorkspace (snd (getContextFileName w f st)) = partialsRegisteredByWorkspace st"
  "partials (snd (getContextFileName w f st)) = partials st"
  "scans (snd (getContextFileName w f st)) = scans st"
  by (simp_all add: getContextFileName_def Let_def)

text \<open>The constructor on the editor throws, and the \<^verbatim>\<open>try\<close> block of the command ends in its \<^verbatim>\<open>catch\<close>.\<close>

lemma new_PreviewPanelScope_editor:
  "new_PreviewPanelScope w (A_TextEditor doc) callback st =
     (Inl TypeError, snd (getContextFileName w None st))"
  by (simp add: new_PreviewPanelScope_def object_fileName_def path_basename_of_def split: prod.splits)

lemma createPanel_eq:
  "createPanel E w doc st = (Inr (), snd (getContextFileName w None st))"
  by (simp add: createPanel_def try_catch_def new_PreviewPanelScope_editor)

lemma createPanel_fields:
  "heap (snd (createPanel E w doc st)) = heap st"
  "next_ref (snd (createPanel E w doc st)) = next_ref st"
  "panels (snd (createPanel E w doc st)) = panels st"
  "partialsRegisteredByWorkspace (snd (createPanel E w doc st)) = partialsRegisteredByWorkspace st"
  "partials (snd (createPanel E w doc st)) = partials st"
  "scans (snd (createPanel E w doc st)) = scans st"
  by (simp_all add: createPanel_eq getContextFileName_fields)

lemma findAndRegisterPartials_cases:
  "(\<exists>err. findAndRegisterPartials E w root st =
            (Inl err, st\<lparr>scans := scans st @ [(root, False)]\<rparr>))
   \<or> (\<exists>known. findAndRegisterPartials E w root st =
            (Inr (),
             (registerPartials known st)
               \<lparr>partialsRegisteredByWorkspace := insert root (partialsRegisteredByWorkspace st),
                scans := scans st @ [(root, True)]\<rparr>))"
  by (fastforce simp: findAndRegisterPartials_def split: sum.splits)

lemma findAndRegisterPartials_fields:
  "heap (snd (findAndRegisterPartials E w root st)) = heap st"
  "next_ref (snd (findAndRegisterPartials E w root st)) = next_ref st"
  "panels (snd (findAndRegisterPartials E w root st)) = panels st"
  "partialsRegisteredByWorkspace st \<subseteq> partialsRegisteredByWorkspace (snd (findAndRegisterPartials E w root st))"
  "scans (snd (findAndRegisterPartials E w root st)) =
     scans st @ [(root, fst (findAndRegisterPartials E w root st) = Inr ())]"
  using findAndRegisterPartials_cases [of E w root st] by (auto simp: registerPartials_def)

lemma fst_findAndRegisterPartials:
  "fst (findAndRegisterPartials E w root st) = fst (findAndRegisterPartials E w root st0)"
  by (simp add: findAndRegisterPartials_def split: sum.splits)

text \<open>The command in three stages.\<close>

lemma previewHandlebars_stages:
  "snd (previewHandlebars E w st) =
     (case activeTextEditor w of
        None \<Rightarrow> st
      | Some doc \<Rightarrow>
          (case getWorkspaceFolder w (uri_fsPath doc) of
             None \<Rightarrow> closeExisting doc st
           | Some root \<Rightarrow>
               if partialsRegistered root st
               then snd (createPanel E w doc (closeExisting doc st))
               else if fst (findAndRegisterPartials E w root (closeExisting doc st)) = Inr ()
               then snd (createPanel E w doc
                          (snd (findAndRegisterPartials E w root (closeExisting doc st))))
               else snd (findAndRegisterPartials E w root (closeExisting doc st))))"
  by (auto simp: previewHandlebars_def Let_def partialsRegistered_closeExisting
      split: option.splits prod.splits sum.splits)

lemma previewHandlebars_flags:
  "partialsRegisteredByWorkspace st \<subseteq> partialsRegisteredByWorkspace (snd (previewHandlebars E w st))"
  using findAndRegisterPartials_fields(4) [of "closeExisting doc st" E w root for doc root]
  by (auto simp: previewHandlebars_stages createPanel_fields closeExisting_fields
      split: option.splits)

text \<open>
  Claim C1. The command on an empty list of sessions leaves it empty and allocates no
  session, whatever the editor, the document and the workspace: the constructor, called
  with the editor, throws a TypeError at \<^verbatim>\<open>path.basename(document.fileName)\<close>, and the
  empty \<^verbatim>\<open>catch\<close> of the command swallows it before the push. So after a preview request
  there is no session for the document's path, where the claim has exactly one.
\<close>

theorem command_registers_no_session:
  assumes "panels st = []"
  shows "panels (snd (previewHandlebars E w st)) = []
       \<and> next_ref (snd (previewHandlebars E w st)) = next_ref st
       \<and> (\<forall>doc callback st0. fst (new_PreviewPanelScope w (A_TextEditor doc) callback st0) = Inl TypeError)
       \<and> (\<forall>doc st0. panels (snd (createPanel E w doc st0)) = panels st0)"
  using assms
  by (simp add: previewHandlebars_stages closeExisting_empty createPanel_fields
      findAndRegisterPartials_fields new_PreviewPanelScope_editor split: option.splits)

text \<open>Unfolding the model and the sample, to run them.\<close>

lemmas sample_defs = sampleE_def sampleW_def sample_files_def sample_parse_def sample_compile_def
  sample_template_def sample_load_def sample_name_def three_images_def page_def unreadable_def

lemmas model_defs = previewHandlebars_def closeExisting_def createPanel_def
  try_catch_def new_PreviewPanelScope_def object_fileName_def path_basename_of_def template_string_def
  getContextFileName_def findAndRegisterPartials_def registerPartials_def partialsRegistered_def
  Object_prototype_keys_def editorFilePath_def initial_def emptyScope_def path_basename_def

text \<open>
  A preview request for the page, in its workspace folder, and a second one: no session
  is listed after either.
\<close>

theorem command_registers_no_session_witness:
  "activeTextEditor (sampleW ''<p>{{name}}</p>'') = Some page
   \<and> getWorkspaceFolder (sampleW ''<p>{{name}}</p>'') (uri_fsPath page) = Some ''/proj''
   \<and> panels initial = []
   \<and> panels (snd (previewHandlebars sampleE (sampleW ''<p>{{name}}</p>'') initial)) = []
   \<and> next_ref (snd (previewHandlebars sampleE (sampleW ''<p>{{name}}</p>'') initial)) = 0
   \<and> panels (snd (previewHandlebars sampleE (sampleW ''<p>{{name}}</p>'')
                   (snd (previewHandlebars sampleE (sampleW ''<p>{{name}}</p>'') initial)))) = []"
proof -
  let ?w = "sampleW ''<p>{{name}}</p>''"
  have i: "panels initial = []" "next_ref initial = 0" by (simp_all add: initial_def)
  note a = command_registers_no_session [OF i(1), of sampleE ?w]
  from a have b: "panels (snd (previewHandlebars sampleE ?w initial)) = []" by simp
  note c = command_registers_no_session [OF b, of sampleE ?w]
  have w: "activeTextEditor ?w = Some page" "getWorkspaceFolder ?w (uri_fsPath page) = Some ''/proj''"
    by (simp_all add: sampleW_def page_def)
  from a c i w show ?thesis by simp
qed

section \<open>The fragment listeners\<close>

lemma partials_onDidCreate_frame:
  "\<exists>registry. erase_html (snd (partials_onDidCreate E w e st)) = erase_html (st\<lparr>partials := registry\<rparr>)"
proof (cases "getWorkspaceFolder w e")
  case None
  then have "snd (partials_onDidCreate E w e st) = st\<lparr>partials := partials st\<rparr>"
    by (simp add: partials_onDidCreate_def)
  then show ?thesis by metis
next
  case (Some folder)
  show ?thesis
  proof (cases "readFile w e")
    case (Inl err)
    then have "snd (partials_onDidCreate E w e st) = st\<lparr>partials := partials st\<rparr>"
      using Some by (simp add: partials_onDidCreate_def)
    then show ?thesis by metis
  next
    case (Inr content)
    let ?st1 = "registerPartials [partialNameGenerator E e folder \<mapsto> content] st"
    have "snd (partials_onDidCreate E w e st) = snd (update_each E w (panels ?st1) ?st1)"
      using Some Inr by (simp add: partials_onDidCreate_def Let_def)
    then have "erase_html (snd (partials_onDidCreate E w e st)) = erase_html ?st1"
      by (simp add: update_each_erase)
    then show ?thesis unfolding registerPartials_def by blast
  qed
qed

lemma partials_onDidChange_frame:
  "\<exists>registry. erase_html (snd (partials_onDidChange E w e st)) = erase_html (st\<lparr>partials := registry\<rparr>)"
proof (cases "getWorkspaceFolder w e")
  case None
  then have "snd (partials_onDidChange E w e st) = st\<lparr>partials := partials st\<rparr>"
    by (simp add: partials_onDidChange_def)
  then show ?thesis by metis
next
  case (Some folder)
  show ?thesis
  proof (cases "readFile w e")
    case (Inl err)
    then have "snd (partials_onDidChange E w e st) = st\<lparr>partials := partials st\<rparr>"
      using Some by (simp add: partials_onDidChange_def)
    then show ?thesis by metis
  next
    case (Inr content)
    let ?st1 = "registerPartial (partialNameGenerator E e folder) content st"
    have "snd (partials_onDidChange E w e st) = snd (update_each E w (panels ?st1) ?st1)"
      using Some Inr by (simp add: partials_onDidChange_def Let_def)
    then have "erase_html (snd (partials_onDidChange E w e st)) = erase_html ?st1"
      by (simp add: update_each_erase)
    then show ?thesis unfolding registerPartial_def by blast
  qed
qed

section \<open>The bulk scan\<close>

text \<open>
  Claim C8, as amended. A bulk load that completes sets the flag of its workspace root;
  one that fails leaves the flags as they are; both are runs of the scan. No handler
  clears a flag: not the command, the document-change listener, the two fragment
  listeners, the context watcher's listener, or the closing of a panel. A preview request
  in a workspace whose flag is set skips the scan; one in a workspace whose flag is not
  set runs it, again if an earlier load failed.
\<close>

theorem bulk_scan_until_loaded:
  "(\<forall>w st'. findAndRegisterPartials E w root st = (Inr (), st') \<longrightarrow>
       partialsRegistered root st' \<and> scans st' = scans st @ [(root, True)])
   \<and> (\<forall>w err st'. findAndRegisterPartials E w root st = (Inl err, st') \<longrightarrow>
       partialsRegisteredByWorkspace st' = partialsRegisteredByWorkspace st
       \<and> scans st' = scans st @ [(root, False)])
   \<and> (partialsRegistered root st \<longrightarrow>
        (\<forall>w e f this.
             partialsRegistered root (snd (previewHandlebars E w st))
           \<and> partialsRegistered root (snd (onDidChangeTextDocument E w e st))
           \<and> partialsRegistered root (snd (partials_onDidCreate E w f st))
           \<and> partialsRegistered root (snd (partials_onDidChange E w f st))
           \<and> partialsRegistered root (snd (contextWatcher_onDidChange E w this st))
           \<and> partialsRegistered root (panel_dispose this st)))
   \<and> (\<forall>w doc. partialsRegistered root st
          \<and> activeTextEditor w = Some doc
          \<and> getWorkspaceFolder w (uri_fsPath doc) = Some root \<longrightarrow>
            scans (snd (previewHandlebars E w st)) = scans st)
   \<and> (\<forall>w doc. \<not> partialsRegistered root st
          \<and> activeTextEditor w = Some doc
          \<and> getWorkspaceFolder w (uri_fsPath doc) = Some root \<longrightarrow>
            scans (snd (previewHandlebars E w st)) =
              scans st @ [(root, fst (findAndRegisterPartials E w root st) = Inr ())])"
proof (intro conjI allI impI)
  fix w st'
  assume "findAndRegisterPartials E w root st = (Inr (), st')"
  then show "partialsRegistered root st'" and "scans st' = scans st @ [(root, True)]"
    using findAndRegisterPartials_cases [of E w root st]
    by (auto simp: partialsRegistered_def)
next
  fix w err st'
  assume "findAndRegisterPartials E w root st = (Inl err, st')"
  then show "partialsRegisteredByWorkspace st' = partialsRegisteredByWorkspace st"
    and "scans st' = scans st @ [(root, False)]"
    using findAndRegisterPartials_cases [of E w root st] by auto
next
  fix w :: world and e :: TextDocument and f :: path and this :: nat
  assume r: "partialsRegistered root st"
  show "partialsRegistered root (snd (previewHandlebars E w st))"
    using r previewHandlebars_flags [of st E w] by (auto simp: partialsRegistered_def)
  show "partialsRegistered root (snd (onDidChangeTextDocument E w e st))"
    using r erase_fields(3) [OF workspaceDocumentChanged_each_erase [of E w "panels st" e st]]
    by (simp add: partialsRegistered_def onDidChangeTextDocument_def)
  show "partialsRegistered root (snd (partials_onDidCreate E w f st))"
  proof -
    obtain registry where
      "erase_html (snd (partials_onDidCreate E w f st)) = erase_html (st\<lparr>partials := registry\<rparr>)"
      using partials_onDidCreate_frame by blast
    from erase_fields(3) [OF this] r show ?thesis by (simp add: partialsRegistered_def)
  qed
  show "partialsRegistered root (snd (partials_onDidChange E w f st))"
  proof -
    obtain registry where
      "erase_html (snd (partials_onDidChange E w f st)) = erase_html (st\<lparr>partials := registry\<rparr>)"
      using partials_onDidChange_frame by blast
    from erase_fields(3) [OF this] r show ?thesis by (simp add: partialsRegistered_def)
  qed
  show "partialsRegistered root (snd (contextWatcher_onDidChange E w this st))"
    using r erase_fields(3) [OF update_erase [of E w this st]]
    by (simp add: partialsRegistered_def contextWatcher_onDidChange_update)
  show "partialsRegistered root (panel_dispose this st)"
    using r by (simp add: partialsRegistered_def panel_dispose_fields)
next
  fix w :: world and doc :: TextDocument
  assume "partialsRegistered root st \<and> activeTextEditor w = Some doc
          \<and> getWorkspaceFolder w (uri_fsPath doc) = Some root"
  then show "scans (snd (previewHandlebars E w st)) = scans st"
    by (simp add: previewHandlebars_stages createPanel_fields closeExisting_fields)
next
  fix w :: world and doc :: TextDocument
  assume "\<not> partialsRegistered root st \<and> activeTextEditor w = Some doc
          \<and> getWorkspaceFolder w (uri_fsPath doc) = Some root"
  then show "scans (snd (previewHandlebars E w st)) =
               scans st @ [(root, fst (findAndRegisterPartials E w root st) = Inr ())]"
    using fst_findAndRegisterPartials [of E w root "closeExisting doc st" st]
    by (simp add: previewHandlebars_stages createPanel_fields closeExisting_fields
        findAndRegisterPartials_fields)
qed

lemma requested_once:
  "partialsRegistered ''/proj'' (snd (previewHandlebars sampleE (sampleW []) initial))"
  "scans (snd (previewHandlebars sampleE (sampleW []) initial)) = [(''/proj'', True)]"
  "\<not> partialsRegistered ''/proj'' initial"
  "\<not> partialsRegistered ''/proj'' (snd (previewHandlebars sampleE unreadable initial))"
  "scans (snd (previewHandlebars sampleE unreadable initial)) = [(''/proj'', False)]"
  "fst (findAndRegisterPartials sampleE unreadable ''/proj'' initial) = Inl SystemError"
  "fst (findAndRegisterPartials sampleE (sampleW []) ''/proj''
         (snd (previewHandlebars sampleE unreadable initial))) = Inr ()"
  by (simp_all add: model_defs sample_defs Let_def)

text \<open>
  The first request loads the fragments and sets the flag, and a second request adds no
  scan; a request while a fragment cannot be read runs the scan and sets no flag.
\<close>

theorem bulk_scan_until_loaded_witness:
  "partialsRegistered ''/proj'' (snd (previewHandlebars sampleE (sampleW []) initial))
   \<and> partialsRegistered ''/proj''
        (snd (partials_onDidChange sampleE (sampleW []) ''/proj/header.hbs''
               (snd (previewHandlebars sampleE (sampleW []) initial))))
   \<and> scans (snd (previewHandlebars sampleE (sampleW [])
                    (snd (previewHandlebars sampleE (sampleW []) initial))))
       = [(''/proj'', True)]
   \<and> scans (snd (previewHandlebars sampleE unreadable initial)) = [(''/proj'', False)]"
proof -
  let ?st = "snd (previewHandlebars sampleE (sampleW []) initial)"
  have w: "activeTextEditor (sampleW []) = Some page"
          "getWorkspaceFolder (sampleW []) (uri_fsPath page) = Some ''/proj''"
          "activeTextEditor unreadable = Some page"
          "getWorkspaceFolder unreadable (uri_fsPath page) = Some ''/proj''"
    by (simp_all add: sampleW_def page_def unreadable_def)
  have i: "scans initial = []" by (simp add: initial_def)
  from bulk_scan_until_loaded [of sampleE "''/proj''" ?st] requested_once(1,2) w
  have a: "partialsRegistered ''/proj''
             (snd (partials_onDidChange sampleE (sampleW []) ''/proj/header.hbs'' ?st))"
          "scans (snd (previewHandlebars sampleE (sampleW []) ?st)) = [(''/proj'', True)]"
    by simp_all
  from bulk_scan_until_loaded [of sampleE "''/proj''" initial] requested_once(3,6) w i
  have b: "scans (snd (previewHandlebars sampleE unreadable initial)) = [(''/proj'', False)]"
    by simp
  from a b requested_once(1) show ?thesis by simp
qed

text \<open>
  The claim as stated fails: while a fragment cannot be read, a preview request scans the
  workspace and the load fails; the next request in the same workspace scans it again.
  The scan of \<^verbatim>\<open>/proj\<close> has run twice.
\<close>

theorem bulk_scan_runs_again_counterexample:
  "findFiles unreadable ''/proj'' = Inr [''/proj/missing.hbs'']
   \<and> scans (snd (previewHandlebars sampleE unreadable initial)) = [(''/proj'', False)]
   \<and> scans (snd (previewHandlebars sampleE (sampleW [])
                    (snd (previewHandlebars sampleE unreadable initial))))
       = [(''/proj'', False), (''/proj'', True)]"
  by (simp add: model_defs sample_defs Let_def)

section \<open>A closed panel\<close>



end
